theory Spec2Isabelle
  imports Main
begin

section \<open>Data model\<close>

text \<open>
  Steward moves messages between nodes over a NATS broker. The types below follow the Go
  declarations as the source files use them. A Go string is a \<open>string\<close>, a slice is a
  list (the nil slice is the empty list), a Go \<open>int\<close> is an \<open>int\<close>: no claim
  treated here depends on 64-bit overflow.
\<close>

type_synonym Node = string
type_synonym Method = string

text \<open>
  The kind a subject carries. \<open>process.go\<close> tests the four values \<open>CommandACK\<close>,
  \<open>EventACK\<close>, \<open>CommandNACK\<close> and \<open>EventNACK\<close>; the method table only uses the two
  event kinds. The Go type is a string type, so a zero-valued subject carries the empty
  string, which is \<open>EventUnset\<close> here.
\<close>

datatype Event = CommandACK | EventACK | CommandNACK | EventNACK | EventUnset

text \<open>
  The struct \<open>Message\<close>, with every field the source files read or write. The field
  \<open>PreviousMessage\<close> is a pointer to a \<open>Message\<close> in Go: \<open>None\<close> is the nil pointer.
  (The snapshot of \<open>process.go\<close> calls the field \<open>ACKTimeout\<close> by its older name
  \<open>Timeout\<close>.)
\<close>

datatype Message = Message
  (ToNode: Node)
  (ToNodes: "Node list")
  (FromNode: Node)
  (ID: int)
  (Data: string)
  (Method: Method)
  (MethodArgs: "string list")
  (ArgSignature: string)
  (ReplyMethod: Method)
  (ReplyMethodArgs: "string list")
  (IsReply: bool)
  (ACKTimeout: int)
  (Retries: int)
  (ReplyACKTimeout: int)
  (ReplyRetries: int)
  (MethodTimeout: int)
  (ReplyMethodTimeout: int)
  (Directory: string)
  (FileName: string)
  (PreviousMessage: "Message option")

text \<open>The zero value \<open>Message{}\<close>.\<close>

definition zeroMessage :: Message where
  "zeroMessage =
     Message.Message [] [] [] 0 [] [] [] [] [] [] False 0 0 0 0 0 0 [] [] None"

text \<open>Assignments to single fields of a message value (\<open>m.ToNode = n\<close> and the like).\<close>

definition set_ToNode :: "Node \<Rightarrow> Message \<Rightarrow> Message" where
  "set_ToNode n m =
     Message.Message n (ToNodes m) (FromNode m) (ID m) (Data m) (Method m) (MethodArgs m)
       (ArgSignature m) (ReplyMethod m) (ReplyMethodArgs m) (IsReply m) (ACKTimeout m)
       (Retries m) (ReplyACKTimeout m) (ReplyRetries m) (MethodTimeout m)
       (ReplyMethodTimeout m) (Directory m) (FileName m) (PreviousMessage m)"

definition set_ToNodes :: "Node list \<Rightarrow> Message \<Rightarrow> Message" where
  "set_ToNodes ns m =
     Message.Message (ToNode m) ns (FromNode m) (ID m) (Data m) (Method m) (MethodArgs m)
       (ArgSignature m) (ReplyMethod m) (ReplyMethodArgs m) (IsReply m) (ACKTimeout m)
       (Retries m) (ReplyACKTimeout m) (ReplyRetries m) (MethodTimeout m)
       (ReplyMethodTimeout m) (Directory m) (FileName m) (PreviousMessage m)"

definition set_Data :: "string \<Rightarrow> Message \<Rightarrow> Message" where
  "set_Data d m =
     Message.Message (ToNode m) (ToNodes m) (FromNode m) (ID m) d (Method m) (MethodArgs m)
       (ArgSignature m) (ReplyMethod m) (ReplyMethodArgs m) (IsReply m) (ACKTimeout m)
       (Retries m) (ReplyACKTimeout m) (ReplyRetries m) (MethodTimeout m)
       (ReplyMethodTimeout m) (Directory m) (FileName m) (PreviousMessage m)"

definition set_ReplyMethod :: "Method \<Rightarrow> Message \<Rightarrow> Message" where
  "set_ReplyMethod r m =
     Message.Message (ToNode m) (ToNodes m) (FromNode m) (ID m) (Data m) (Method m)
       (MethodArgs m) (ArgSignature m) r (ReplyMethodArgs m) (IsReply m) (ACKTimeout m)
       (Retries m) (ReplyACKTimeout m) (ReplyRetries m) (MethodTimeout m)
       (ReplyMethodTimeout m) (Directory m) (FileName m) (PreviousMessage m)"

text \<open>The struct \<open>Subject\<close> and the pair \<open>subjectAndMessage\<close> (two embedded structs).\<close>

record Subject =
  ToNode :: string
  Event :: Event
  Method :: Method

record subjectAndMessage =
  Subject :: Subject
  Message :: Message

text \<open>
  What the code hands to the error kernel (\<open>errSend\<close>) or returns as an \<open>error\<close>: one
  constructor per \<open>fmt.Errorf\<close> text of the functions modelled here.
\<close>

datatype error =
    ErrNoSuchRequestType Method
  | ErrToNodeEmpty
  | ErrMethodEmpty
  | ErrNoToNodeOrToNodes
  | ErrUnmarshal
  | ErrNewSubjectAndMessage error
  | ErrMissingFromField
  | ErrMethodNotAvailable
  | ErrHandlerFailed string

section \<open>Ingress: fan-out over \<open>ToNodes\<close>\<close>

text \<open>
  \<open>checkMessageToNodes\<close> (message_readers.go). The inner loop appends one copy of \<open>v\<close>
  per node of \<open>v.ToNodes\<close>; the outer loop runs the three-way \<open>switch\<close> on every
  message. The second component collects the calls of \<open>errSend\<close>.
\<close>

fun toNodesRange :: "Message \<Rightarrow> Node list \<Rightarrow> Message list \<Rightarrow> Message list" where
  "toNodesRange v [] msgs = msgs"
| "toNodesRange v (n # ns) msgs =
     toNodesRange v ns (msgs @ [set_ToNode n (set_ToNodes [] v)])"

fun checkMessageToNodesRange ::
  "Message list \<Rightarrow> Message list \<times> (Message \<times> error) list
     \<Rightarrow> Message list \<times> (Message \<times> error) list" where
  "checkMessageToNodesRange [] acc = acc"
| "checkMessageToNodesRange (v # vs) (msgs, errs) =
     (if Message.ToNode v \<noteq> [] then checkMessageToNodesRange vs (msgs @ [v], errs)
      else if length (ToNodes v) \<noteq> 0
        then checkMessageToNodesRange vs (toNodesRange v (ToNodes v) msgs, errs)
      else checkMessageToNodesRange vs (msgs, errs @ [(v, ErrNoToNodeOrToNodes)]))"

definition checkMessageToNodes :: "Message list \<Rightarrow> Message list \<times> (Message \<times> error) list" where
  "checkMessageToNodes MsgSlice = checkMessageToNodesRange MsgSlice ([], [])"

text \<open>
  The spec's wording of the fan-out, message by message: a message with a \<open>ToNode\<close> is
  kept as it is, a message with only \<open>ToNodes\<close> becomes one message per listed node, a
  message with neither is dropped.
\<close>

definition fanOut_spec :: "Message \<Rightarrow> Message list" where
  "fanOut_spec v =
     (if Message.ToNode v \<noteq> [] then [v]
      else if ToNodes v \<noteq> [] then map (\<lambda>n. set_ToNode n (set_ToNodes [] v)) (ToNodes v)
      else [])"

section \<open>The method table and subject construction\<close>

abbreviation REQCliCommand :: Method where "REQCliCommand \<equiv> ''REQCliCommand''"
abbreviation REQToFileAppend :: Method where "REQToFileAppend \<equiv> ''REQToFileAppend''"
abbreviation REQNone :: Method where "REQNone \<equiv> ''REQNone''"
abbreviation REQHello :: Method where "REQHello \<equiv> ''REQHello''"

text \<open>
  \<open>GetMethodsAvailable\<close>: the map literal of the source, key by key, each handler value
  reduced to the event kind its \<open>getKind\<close> returns (the handler types themselves are
  declared elsewhere in the repository, and subject construction only asks for the kind). Go rejects
  a map literal with a repeated constant key, so the order of the entries does not matter.
\<close>

definition GetMethodsAvailable :: "(Method \<times> Event) list" where
  "GetMethodsAvailable =
     [(''REQInitial'', EventACK),
      (''REQOpProcessList'', EventACK),
      (''REQOpProcessStart'', EventACK),
      (''REQOpProcessStop'', EventACK),
      (''REQCliCommand'', EventACK),
      (''REQCliCommandCont'', EventACK),
      (''REQToConsole'', EventACK),
      (''REQTuiToConsole'', EventACK),
      (''REQToFileAppend'', EventACK),
      (''REQToFile'', EventACK),
      (''REQToFileNACK'', EventNACK),
      (''REQCopyFileFrom'', EventACK),
      (''REQCopyFileTo'', EventACK),
      (''REQHello'', EventNACK),
      (''REQErrorLog'', EventACK),
      (''REQPing'', EventACK),
      (''REQPong'', EventACK),
      (''REQHttpGet'', EventACK),
      (''REQHttpGetScheduled'', EventACK),
      (''REQTailFile'', EventACK),
      (''REQRelay'', EventACK),
      (''REQRelayInitial'', EventACK),
      (''REQPublicKey'', EventACK),
      (''REQKeysRequestUpdate'', EventNACK),
      (''REQKeysDeliverUpdate'', EventNACK),
      (''REQKeysAllow'', EventACK),
      (''REQKeysDelete'', EventACK),
      (''REQAclRequestUpdate'', EventNACK),
      (''REQAclDeliverUpdate'', EventNACK),
      (''REQAclAddCommand'', EventACK),
      (''REQAclDeleteCommand'', EventACK),
      (''REQAclDeleteSource'', EventACK),
      (''REQAclGroupNodesAddNode'', EventACK),
      (''REQAclGroupNodesDeleteNode'', EventACK),
      (''REQAclGroupNodesDeleteGroup'', EventACK),
      (''REQAclGroupCommandsAddCommand'', EventACK),
      (''REQAclGroupCommandsDeleteCommand'', EventACK),
      (''REQAclGroupCommandsDeleteGroup'', EventACK),
      (''REQAclExport'', EventACK),
      (''REQAclImport'', EventACK),
      (''REQTest'', EventACK)]"

text \<open>\<open>getHandler\<close>: the map lookup; \<open>None\<close> is the nil handler of a missing key.\<close>

definition getHandler :: "Method \<Rightarrow> Event option" where
  "getHandler method = map_of GetMethodsAvailable method"

text \<open>
  \<open>newSubjectAndMessage\<close> (message_readers.go): the handler lookup comes first, then the
  \<open>switch\<close> on the empty \<open>ToNode\<close> and the empty \<open>Method\<close>.
\<close>

definition newSubjectAndMessage :: "Message \<Rightarrow> error + subjectAndMessage" where
  "newSubjectAndMessage m =
     (case getHandler (Message.Method m) of
        None \<Rightarrow> Inl (ErrNoSuchRequestType (Message.Method m))
      | Some tmpH \<Rightarrow>
          if Message.ToNode m = [] then Inl ErrToNodeEmpty
          else if Message.Method m = [] then Inl ErrMethodEmpty
          else Inr \<lparr>Subject = \<lparr>ToNode = Message.ToNode m, Event = tmpH,
                                 Method = Message.Method m\<rparr>,
                    Message = m\<rparr>)"

text \<open>
  \<open>convertBytesToSAMs\<close> (message_readers.go). The YAML parser is a library function:
  it is the parameter \<open>yaml_Unmarshal\<close>, giving the parsed slice or failing. The loop
  skips (and reports) every message \<open>newSubjectAndMessage\<close> refuses. The result is what
  the function returns together with the calls of \<open>errSend\<close> in order; the metrics
  counter is left out.
\<close>

fun convertRange ::
  "Message list \<Rightarrow> subjectAndMessage list \<times> (Message \<times> error) list
     \<Rightarrow> subjectAndMessage list \<times> (Message \<times> error) list" where
  "convertRange [] acc = acc"
| "convertRange (m # ms) (sam, errs) =
     (case newSubjectAndMessage m of
        Inl err \<Rightarrow> convertRange ms (sam, errs @ [(m, ErrNewSubjectAndMessage err)])
      | Inr sm \<Rightarrow> convertRange ms (sam @ [sm], errs))"

definition convertBytesToSAMs ::
  "(string \<Rightarrow> error + Message list) \<Rightarrow> string
     \<Rightarrow> (error + subjectAndMessage list) \<times> (Message \<times> error) list" where
  "convertBytesToSAMs yaml_Unmarshal b =
     (case yaml_Unmarshal b of
        Inl err \<Rightarrow> (Inl ErrUnmarshal, [])
      | Inr MsgSlice \<Rightarrow>
          (case checkMessageToNodes MsgSlice of
             (MsgSlice', errs) \<Rightarrow>
               (case convertRange MsgSlice' ([], errs) of
                  (sam, errs') \<Rightarrow> (Inr sam, errs'))))"

section \<open>Reply routing\<close>

text \<open>
  \<open>newReplyMessage\<close> (method table file). The first component lists the batches sent on
  \<open>proc.toRingbufferCh\<close>, the second the calls of \<open>errSend\<close>. The parameter \<open>message\<close>
  is a copy in Go, so the default for \<open>ReplyMethod\<close> is written into that copy before
  \<open>thisMsg\<close> is taken from it. When \<open>newSubjectAndMessage\<close> fails the code reports the
  error and goes on: what it then sends is the zero \<open>subjectAndMessage\<close> the failed call
  returned.
\<close>

definition zeroSubjectAndMessage :: subjectAndMessage where
  "zeroSubjectAndMessage =
     \<lparr>Subject = \<lparr>ToNode = [], Event = EventUnset, Method = []\<rparr>, Message = zeroMessage\<rparr>"

definition replyMethodOrDefault :: "Message \<Rightarrow> Method" where
  "replyMethodOrDefault message =
     (if ReplyMethod message = [] then REQToFileAppend else ReplyMethod message)"

definition newReplyMessage ::
  "Message \<Rightarrow> string \<Rightarrow> subjectAndMessage list list \<times> (Message \<times> error) list" where
  "newReplyMessage message0 outData =
     (if ReplyMethod message0 = REQNone then ([], [])
      else
        let message = (if ReplyMethod message0 = []
                       then set_ReplyMethod REQToFileAppend message0 else message0);
            thisMsg = set_Data [] message;
            newMsg = Message.Message
              (FromNode message) [] (Message.ToNode message) 0 outData (ReplyMethod message)
              (ReplyMethodArgs message) [] [] [] True (ReplyACKTimeout message)
              (ReplyRetries message) 0 0 (ReplyMethodTimeout message) 0
              (Directory message) (FileName message) (Some thisMsg)
        in case newSubjectAndMessage newMsg of
             Inl err \<Rightarrow> ([[zeroSubjectAndMessage]], [(message, ErrNewSubjectAndMessage err)])
           | Inr sam \<Rightarrow> ([[sam]], []))"

text \<open>
  The configuration fields the modelled functions read, and the process record with the
  fields of both snapshots of \<open>process\<close> (\<open>allowedReceivers\<close> is a Go map to the empty
  struct, that is, a set). A method handler is its event kind and its \<open>handler\<close>
  function, which gives output bytes and an optional error; the process and server
  handles the Go handlers also receive are not passed on.
\<close>

record Configuration =
  SubscribersDataFolder :: string
  EnableSignatureCheck :: bool

record methodHandler =
  getKind :: Event
  handler :: "Message \<Rightarrow> string \<Rightarrow> string \<times> string option"

datatype processKind = processKindSubscriber | processKindPublisher

record process =
  messageID :: int
  subject :: Subject
  node :: Node
  processID :: int
  processKind :: processKind
  allowedReceivers :: "Node set"
  methodsAvailable :: "Method \<Rightarrow> methodHandler option"
  configuration :: Configuration

text \<open>
  \<open>selectFileNaming\<close>. \<open>filepath.Join\<close> is the library's path join, a parameter here,
  applied to the list of its arguments. The Go \<open>switch\<close> has no default: were no case
  taken, both results would keep their zero value, the empty string.
\<close>

definition selectFileNaming ::
  "(string list \<Rightarrow> string) \<Rightarrow> Message \<Rightarrow> process \<Rightarrow> string \<times> string" where
  "selectFileNaming filepath_Join message proc =
     (case PreviousMessage message of
        None \<Rightarrow>
          (FileName message,
           filepath_Join [SubscribersDataFolder (process.configuration proc),
                          Directory message, Message.ToNode message])
      | Some prev \<Rightarrow>
          if Message.ToNode prev \<noteq> [] then
            (FileName prev,
             filepath_Join [SubscribersDataFolder (process.configuration proc),
                            Directory prev, Message.ToNode prev])
          else if Message.ToNode prev = [] then
            (FileName prev,
             filepath_Join [SubscribersDataFolder (process.configuration proc),
                            Directory prev, FromNode message])
          else ([], []))"

section \<open>Signature check\<close>

text \<open>
  The key store \<open>publicKeys.keysAndHash\<close> and the fields of \<open>nodeAuth\<close> that
  \<open>verifySignature\<close> can see. \<open>ed25519.Verify\<close> is the library's verifier, a parameter
  here: public key, message, signature.
\<close>

record keysAndHash =
  Keys :: "Node \<Rightarrow> string option"
  Hash :: string

record nodeAuth =
  publicKeys :: keysAndHash
  SignPrivateKey :: string
  SignPublicKey :: string
  configuration :: Configuration

text \<open>\<open>strings.Join\<close> and \<open>argsToString\<close>.\<close>

fun strings_Join :: "string list \<Rightarrow> string \<Rightarrow> string" where
  "strings_Join [] sep = []"
| "strings_Join [a] sep = a"
| "strings_Join (a # b # rest) sep = a @ sep @ strings_Join (b # rest) sep"

definition argsToString :: "string list \<Rightarrow> string" where
  "argsToString args = strings_Join args '' ''"

definition verifySignature ::
  "(string \<Rightarrow> string \<Rightarrow> string \<Rightarrow> bool) \<Rightarrow> nodeAuth \<Rightarrow> Message \<Rightarrow> bool" where
  "verifySignature ed25519_Verify n m =
     (if \<not> EnableSignatureCheck (nodeAuth.configuration n) then True
      else if Message.Method m \<noteq> REQCliCommand then True
      else ed25519_Verify (SignPublicKey n) (argsToString (MethodArgs m)) (ArgSignature m))"

section \<open>Publisher: \<open>messageDeliverNats\<close>\<close>

text \<open>
  Modelled from the spec: \<open>Subject.name\<close>, whose body lies elsewhere in the repository;
  the spec gives the canonical wire name \<open><ToNode>.<Method>.<Event>\<close>.
\<close>

fun eventName :: "Event \<Rightarrow> string" where
  "eventName CommandACK = ''CommandACK''"
| "eventName EventACK = ''EventACK''"
| "eventName CommandNACK = ''CommandNACK''"
| "eventName EventNACK = ''EventNACK''"
| "eventName EventUnset = []"

definition name :: "Subject \<Rightarrow> string" where
  "name s = Subject.ToNode s @ ''.'' @ Subject.Method s @ ''.'' @ eventName (Event s)"

text \<open>
  Modelled from the spec: the gob encoding (\<open>gobEncodeMessage\<close> lies elsewhere in the
  repository), for which the spec gives the law that decoding an encoded message gives
  the message back with all fields. \<open>Gob m\<close> is the byte string that encodes \<open>m\<close>,
  \<open>GobMalformed\<close> any byte string the decoder refuses. A \<open>nats.Msg\<close> has a subject, a
  reply subject and the payload.
\<close>

datatype gob = Gob Message | GobMalformed

record nats_Msg =
  Subject :: string
  Reply :: string
  Data :: gob

text \<open>
  The broker is the environment of the publisher loop. One \<open>brokerRound\<close> says what the
  broker does during one pass of the loop body: whether \<open>SubscribeSync\<close> fails, whether
  \<open>PublishMsg\<close> fails, and what \<open>NextMsg\<close> gives within the timeout (\<open>None\<close> is the
  timeout error). The loop is run against a finite script of rounds. Its trace lists the
  broker calls in order, each with its outcome, and the max-retries log line.
\<close>

record brokerRound =
  subscribeSyncErr :: bool
  publishMsgErr :: bool
  nextMsgReply :: "string option"

datatype natsCall =
    SubscribeSync string bool
  | PublishMsg nats_Msg bool
  | NextMsg int "string option"
  | LogMaxRetries int

text \<open>
  \<open>Returned\<close>: the function has returned. \<open>Looping\<close>: the script is used up and the
  loop stands at the head of a further pass.
\<close>

datatype loopStatus = Returned | Looping

definition after :: "natsCall list \<Rightarrow> natsCall list \<times> loopStatus \<Rightarrow> natsCall list \<times> loopStatus" where
  "after calls rest = (calls @ fst rest, snd rest)"

text \<open>
  \<open>messageDeliverNats\<close> (process.go). \<open>retryAttempts\<close> is the loop's counter. A failed
  \<open>SubscribeSync\<close> or \<open>PublishMsg\<close> is logged and the pass starts again (\<open>continue\<close>)
  with the counter unchanged. For the two ACK kinds the loop waits in \<open>NextMsg\<close>; on a
  timeout it counts the attempt and runs the three-way \<open>switch\<close>. Any other kind returns
  right after the publish.
\<close>

fun messageDeliverNats_for ::
  "process \<Rightarrow> Message \<Rightarrow> brokerRound list \<Rightarrow> int \<Rightarrow> natsCall list \<times> loopStatus" where
  "messageDeliverNats_for proc message [] retryAttempts = ([], Looping)"
| "messageDeliverNats_for proc message (r # rs) retryAttempts =
     (let msg = \<lparr>Subject = name (subject proc),
                 Reply = ''reply.'' @ name (subject proc),
                 Data = Gob message\<rparr>
      in
        if subscribeSyncErr r then
          after [SubscribeSync (Reply msg) False]
            (messageDeliverNats_for proc message rs retryAttempts)
        else if publishMsgErr r then
          after [SubscribeSync (Reply msg) True, PublishMsg msg False]
            (messageDeliverNats_for proc message rs retryAttempts)
        else if Event (subject proc) = CommandACK \<or> Event (subject proc) = EventACK then
          (case nextMsgReply r of
             None \<Rightarrow>
               if Retries message = 0 then
                 after [SubscribeSync (Reply msg) True, PublishMsg msg True,
                        NextMsg (ACKTimeout message) None]
                   (messageDeliverNats_for proc message rs (retryAttempts + 1))
               else if retryAttempts + 1 \<ge> Retries message then
                 ([SubscribeSync (Reply msg) True, PublishMsg msg True,
                   NextMsg (ACKTimeout message) None, LogMaxRetries (retryAttempts + 1)],
                  Returned)
               else
                 after [SubscribeSync (Reply msg) True, PublishMsg msg True,
                        NextMsg (ACKTimeout message) None]
                   (messageDeliverNats_for proc message rs (retryAttempts + 1))
           | Some msgReply \<Rightarrow>
               ([SubscribeSync (Reply msg) True, PublishMsg msg True,
                 NextMsg (ACKTimeout message) (Some msgReply)],
                Returned))
        else
          ([SubscribeSync (Reply msg) True, PublishMsg msg True], Returned))"

definition messageDeliverNats ::
  "process \<Rightarrow> Message \<Rightarrow> brokerRound list \<Rightarrow> natsCall list \<times> loopStatus" where
  "messageDeliverNats proc message script = messageDeliverNats_for proc message script 0"

text \<open>What is counted in a trace.\<close>

fun isPublish :: "natsCall \<Rightarrow> bool" where
  "isPublish (PublishMsg msg ok) = ok"
| "isPublish c = False"

fun isSubscribe :: "natsCall \<Rightarrow> bool" where
  "isSubscribe (SubscribeSync reply ok) = ok"
| "isSubscribe c = False"

fun isNextMsg :: "natsCall \<Rightarrow> bool" where
  "isNextMsg (NextMsg t reply) = True"
| "isNextMsg c = False"

fun carries :: "Message \<Rightarrow> natsCall \<Rightarrow> bool" where
  "carries m (PublishMsg msg ok) = (Data msg = Gob m)"
| "carries m c = True"

definition publishes :: "natsCall list \<Rightarrow> nat" where
  "publishes tr = length (filter isPublish tr)"

definition subscribes :: "natsCall list \<Rightarrow> nat" where
  "subscribes tr = length (filter isSubscribe tr)"

definition waits :: "natsCall list \<Rightarrow> nat" where
  "waits tr = length (filter isNextMsg tr)"

text \<open>Kinds of rounds: a pass the broker fails, a pass that times out, a pass that is answered.\<close>

definition failing :: "brokerRound \<Rightarrow> bool" where
  "failing r = (subscribeSyncErr r \<or> publishMsgErr r)"

definition timingOut :: "brokerRound \<Rightarrow> bool" where
  "timingOut r = (\<not> subscribeSyncErr r \<and> \<not> publishMsgErr r \<and> nextMsgReply r = None)"

definition answered :: "brokerRound \<Rightarrow> bool" where
  "answered r = (\<not> subscribeSyncErr r \<and> \<not> publishMsgErr r \<and> nextMsgReply r \<noteq> None)"

definition isACK :: "process \<Rightarrow> bool" where
  "isACK proc = (Event (subject proc) = CommandACK \<or> Event (subject proc) = EventACK)"

definition isNACK :: "process \<Rightarrow> bool" where
  "isNACK proc = (Event (subject proc) = CommandNACK \<or> Event (subject proc) = EventNACK)"

section \<open>Subscriber: \<open>subscriberHandler\<close>\<close>

text \<open>
  What a run of the subscriber side does, in order: a method handler is invoked (with the
  message and the node name), a payload is published on a subject, the test error of
  \<open>sendErrorLogMessage\<close> is sent, an error goes to the error kernel. A run that steps
  out of Go's memory safety ends in a panic instead.
\<close>

datatype effect =
    HandlerCall Method Message string
  | NatsPublish string string
  | SendErrorLogMessage Node
  | ErrSend Message error

datatype panic = NilHandlerDereference | IndexOutOfRange

text \<open>\<open>CheckIfExists\<close>: the handler and the flag \<open>ok\<close>; a missing method gives nil and false.\<close>

definition CheckIfExists ::
  "(Method \<Rightarrow> methodHandler option) \<Rightarrow> Method \<Rightarrow> methodHandler option \<times> bool" where
  "CheckIfExists ma m = (case ma m of Some mFunc \<Rightarrow> (Some mFunc, True) | None \<Rightarrow> (None, False))"

text \<open>The decoder: a payload that does not decode is logged and leaves the zero message.\<close>

fun gobDecode :: "gob \<Rightarrow> Message" where
  "gobDecode (Gob m) = m"
| "gobDecode GobMalformed = zeroMessage"

text \<open>
  \<open>subscriberHandler\<close> (process.go), with the server's method table as first argument.
  In both branches the flag \<open>ok\<close> of \<open>CheckIfExists\<close> only decides whether a line is
  logged; \<open>mf.handler\<close> is called on whatever \<open>mf\<close> is, and calling a method of a nil
  interface value panics. The ACK branch checks \<open>allowedReceivers\<close> before the call and
  publishes \<open>out\<close> on the reply subject afterwards; the NACK branch calls the handler
  directly.
\<close>

definition subscriberHandler ::
  "(Method \<Rightarrow> methodHandler option) \<Rightarrow> process \<Rightarrow> string \<Rightarrow> nats_Msg \<Rightarrow> panic + effect list" where
  "subscriberHandler s_methodsAvailable p thisNode msg =
     (let message = gobDecode (Data msg) in
      if Event (subject p) = CommandACK \<or> Event (subject p) = EventACK then
        (let mf = fst (CheckIfExists s_methodsAvailable (Message.Method message));
             out = ''not allowed from '' @ FromNode message
         in if FromNode message \<in> allowedReceivers p \<or> ''*'' \<in> allowedReceivers p then
              (case mf of
                 None \<Rightarrow> Inl NilHandlerDereference
               | Some h \<Rightarrow>
                   Inr [HandlerCall (Message.Method message) message thisNode,
                        NatsPublish (Reply msg) (fst (handler h message thisNode)),
                        SendErrorLogMessage thisNode])
            else Inr [NatsPublish (Reply msg) out, SendErrorLogMessage thisNode])
      else if Event (subject p) = CommandNACK \<or> Event (subject p) = EventNACK then
        (let mf = fst (CheckIfExists s_methodsAvailable (Message.Method message))
         in case mf of
              None \<Rightarrow> Inl NilHandlerDereference
            | Some h \<Rightarrow> Inr [HandlerCall (Message.Method message) message thisNode])
      else Inr [])"

section \<open>Startup folder\<close>

text \<open>
  Modelled from the spec: \<open>processNameGet\<close>, whose body lies elsewhere in the repository;
  the spec gives the process name as \<open><subject-canonical>.<kind>\<close>.
\<close>

fun processKindName :: "processKind \<Rightarrow> string" where
  "processKindName processKindSubscriber = ''subscriber''"
| "processKindName processKindPublisher = ''publisher''"

definition processNameGet :: "string \<Rightarrow> processKind \<Rightarrow> string" where
  "processNameGet sn pk = sn @ ''.'' @ processKindName pk"

text \<open>
  The first loop of \<open>readStartupFolder\<close>'s body, written to remove the messages with a
  blank \<open>FromNode\<close>. \<open>for i := range sams\<close> fixes the number of passes \<open>n\<close> when the
  loop starts, while the body reads and shortens the current \<open>sams\<close>: \<open>sams[i]\<close> panics
  when \<open>i\<close> is no longer below the current length, and the bounds check leaves the loop
  only when \<open>i\<close> is exactly the last index.
\<close>

function checkFromNodeRange ::
  "nat \<Rightarrow> nat \<Rightarrow> subjectAndMessage list \<Rightarrow> (Message \<times> error) list
     \<Rightarrow> panic + subjectAndMessage list \<times> (Message \<times> error) list" where
  "checkFromNodeRange i n sams errs =
     (if n \<le> i then Inr (sams, errs)
      else if length sams \<le> i then Inl IndexOutOfRange
      else if FromNode (Message (sams ! i)) = [] then
        (if int i = int (length (take i sams @ drop (i + 1) sams)) - 1
         then Inr (take i sams @ drop (i + 1) sams, errs @ [(zeroMessage, ErrMissingFromField)])
         else checkFromNodeRange (i + 1) n (take i sams @ drop (i + 1) sams)
                (errs @ [(zeroMessage, ErrMissingFromField)]))
      else
        (if int i = int (length sams) - 1 then Inr (sams, errs)
         else checkFromNodeRange (i + 1) n sams errs))"
  by pat_completeness auto
termination
  by (relation "measure (\<lambda>(i, n, sams, errs). n - i)") auto

declare checkFromNodeRange.simps [simp del]

text \<open>
  The second loop: every remaining message is looked up by the name of its subscriber
  process and handed to that process's method handler, on this node. A process name
  missing from the map gives Go's zero process, whose method table is empty.
\<close>

definition zeroProcess :: process where
  "zeroProcess =
     \<lparr>messageID = 0, subject = \<lparr>ToNode = [], Event = EventUnset, Method = []\<rparr>, node = [],
      processID = 0, processKind = processKindSubscriber, allowedReceivers = {},
      methodsAvailable = (\<lambda>m. None),
      configuration = \<lparr>SubscribersDataFolder = [], EnableSignatureCheck = False\<rparr>\<rparr>"

fun handleRange ::
  "(string \<Rightarrow> process option) \<Rightarrow> string \<Rightarrow> subjectAndMessage list \<Rightarrow> effect list" where
  "handleRange procNames nodeName [] = []"
| "handleRange procNames nodeName (sam # sams) =
     (let processName = processNameGet (name (subjectAndMessage.Subject sam)) processKindSubscriber;
          p = (case procNames processName of Some p \<Rightarrow> p | None \<Rightarrow> zeroProcess)
      in case CheckIfExists (methodsAvailable p) (Message.Method (Message sam)) of
           (Some mh, True) \<Rightarrow>
             (case snd (handler mh (Message sam) nodeName) of
                None \<Rightarrow> [HandlerCall (Message.Method (Message sam)) (Message sam) nodeName]
              | Some err \<Rightarrow>
                  [HandlerCall (Message.Method (Message sam)) (Message sam) nodeName,
                   ErrSend (Message sam) (ErrHandlerFailed err)])
             @ handleRange procNames nodeName sams
         | _ \<Rightarrow> ErrSend (Message sam) ErrMethodNotAvailable
                  # handleRange procNames nodeName sams)"

text \<open>\<open>bytes.Trim(readBytes, "\x00")\<close>: leading and trailing NUL bytes go.\<close>

definition trimNUL :: "string \<Rightarrow> string" where
  "trimNUL b = rev (dropWhile (\<lambda>c. c = CHR 0x00) (rev (dropWhile (\<lambda>c. c = CHR 0x00) b)))"

text \<open>
  The body of \<open>readStartupFolder\<close>'s loop for one file that was read: parse, remove the
  blank senders, handle the rest. No broker call occurs in it: the effects are handler
  invocations and errors sent to the error kernel.
\<close>

definition readStartupFile ::
  "(string \<Rightarrow> error + Message list) \<Rightarrow> (string \<Rightarrow> process option) \<Rightarrow> string \<Rightarrow> string
     \<Rightarrow> panic + effect list" where
  "readStartupFile yaml_Unmarshal procNames nodeName readBytes =
     (case convertBytesToSAMs yaml_Unmarshal (trimNUL readBytes) of
        (Inl err, errs) \<Rightarrow>
          Inr (map (\<lambda>(m, e). ErrSend m e) errs @ [ErrSend zeroMessage ErrUnmarshal])
      | (Inr sams, errs) \<Rightarrow>
          (case checkFromNodeRange 0 (length sams) sams [] of
             Inl pnc \<Rightarrow> Inl pnc
           | Inr (sams', errs') \<Rightarrow>
               Inr (map (\<lambda>(m, e). ErrSend m e) (errs @ errs')
                    @ handleRange procNames nodeName sams')))"

section \<open>Concrete inputs\<close>

text \<open>
  The message of the spec's ingress example, addressed to \<open>ship1\<close> by \<open>central\<close>, and
  variants of it: with a fan-out list instead of a target, with no target at all, with a
  method outside the table, with a data payload, with no sender.
\<close>

definition cliMsg :: Message where
  "cliMsg =
     Message.Message ''ship1'' [] ''central'' 0 [] REQCliCommand [''bash'', ''-c'', ''tree ./'']
       ''sig'' [] [] False 5 3 5 3 10 10 ''cmd_result'' ''out.log'' None"

definition fanMsg :: Message where
  "fanMsg = set_ToNodes [''a'', ''b''] (set_ToNode [] cliMsg)"

definition noTargetMsg :: Message where
  "noTargetMsg = set_ToNode [] cliMsg"

definition unknownMethodMsg :: Message where
  "unknownMethodMsg =
     Message.Message ''ship1'' [] ''central'' 0 [] ''REQNoSuch'' [] [] [] [] False 5 3 5 3 10 10
       [] [] None"

text \<open>
  A table with two handlers, and two subscriber processes on it: one for the ACK subject
  of \<open>REQCliCommand\<close> on \<open>ship1\<close>, one for the NACK subject of \<open>REQHello\<close> on
  \<open>central\<close>. Both accept messages from \<open>central\<close> only.
\<close>

definition twoMethods :: "Method \<Rightarrow> methodHandler option" where
  "twoMethods m =
     (if m = REQCliCommand
        then Some \<lparr>getKind = EventACK, handler = (\<lambda>message node. (''confirmed'', None))\<rparr>
      else if m = REQHello
        then Some \<lparr>getKind = EventNACK, handler = (\<lambda>message node. ([], None))\<rparr>
      else None)"

definition ackProc :: process where
  "ackProc =
     \<lparr>messageID = 0,
      subject = \<lparr>ToNode = ''ship1'', Event = EventACK, Method = REQCliCommand\<rparr>,
      node = ''ship1'', processID = 1, processKind = processKindSubscriber,
      allowedReceivers = {''central''}, methodsAvailable = twoMethods,
      configuration = \<lparr>SubscribersDataFolder = ''var'', EnableSignatureCheck = True\<rparr>\<rparr>"

definition nackProc :: process where
  "nackProc =
     \<lparr>messageID = 0,
      subject = \<lparr>ToNode = ''central'', Event = EventNACK, Method = REQHello\<rparr>,
      node = ''central'', processID = 2, processKind = processKindSubscriber,
      allowedReceivers = {''central''}, methodsAvailable = twoMethods,
      configuration = \<lparr>SubscribersDataFolder = ''var'', EnableSignatureCheck = True\<rparr>\<rparr>"

definition helloMsg :: Message where
  "helloMsg =
     Message.Message ''central'' [] ''ship1'' 0 ''Hello from ship1'' REQHello [] [] [] [] False
       0 0 0 0 0 0 [] [] None"

text \<open>Broker rounds: a pass that times out, a pass that is answered, two failing passes.\<close>

definition timeoutRound :: brokerRound where
  "timeoutRound = \<lparr>subscribeSyncErr = False, publishMsgErr = False, nextMsgReply = None\<rparr>"

definition replyRound :: brokerRound where
  "replyRound = \<lparr>subscribeSyncErr = False, publishMsgErr = False, nextMsgReply = Some ''ok''\<rparr>"

definition subscribeFailRound :: brokerRound where
  "subscribeFailRound = \<lparr>subscribeSyncErr = True, publishMsgErr = False, nextMsgReply = None\<rparr>"

definition publishFailRound :: brokerRound where
  "publishFailRound = \<lparr>subscribeSyncErr = False, publishMsgErr = True, nextMsgReply = None\<rparr>"

text \<open>The same CLI message with unlimited retries.\<close>

definition cliMsgForever :: Message where
  "cliMsgForever =
     Message.Message ''ship1'' [] ''central'' 0 [] REQCliCommand [''bash'', ''-c'', ''tree ./'']
       ''sig'' [] [] False 5 0 5 3 10 10 ''cmd_result'' ''out.log'' None"

text \<open>
  Deliveries to the two subscribers: a hello from \<open>ship1\<close>, which the NACK subscriber
  does not list as an allowed sender, and a message from \<open>central\<close> whose method is in
  no table.
\<close>

definition helloDelivery :: nats_Msg where
  "helloDelivery =
     \<lparr>nats_Msg.Subject = ''central.REQHello.EventNACK'',
      Reply = ''reply.central.REQHello.EventNACK'', Data = Gob helloMsg\<rparr>"

definition unknownMethodDelivery :: nats_Msg where
  "unknownMethodDelivery =
     \<lparr>nats_Msg.Subject = ''ship1.REQCliCommand.EventACK'',
      Reply = ''reply.ship1.REQCliCommand.EventACK'', Data = Gob unknownMethodMsg\<rparr>"

text \<open>
  Startup messages for \<open>ship1\<close>: two without a \<open>FromNode\<close>, and the registry with the
  subscriber for the CLI subject.
\<close>

definition blankFromA :: Message where
  "blankFromA =
     Message.Message ''ship1'' [] [] 0 [] REQCliCommand [''date''] [] [] [] False 5 3 5 3 10 10
       ''startup'' ''a.log'' None"

definition blankFromB :: Message where
  "blankFromB =
     Message.Message ''ship1'' [] [] 0 [] REQCliCommand [''uptime''] [] [] [] False 5 3 5 3 10 10
       ''startup'' ''b.log'' None"

definition startupProcs :: "string \<Rightarrow> process option" where
  "startupProcs pn =
     (if pn = ''ship1.REQCliCommand.EventACK.subscriber'' then Some ackProc else None)"

text \<open>
  A node whose own signing key differs from the key it has stored for \<open>central\<close>, and a
  CLI message from \<open>central\<close>. \<open>tagVerify\<close> stands in for the library's verifier at
  concrete inputs: it accepts exactly the signature made of the key followed by the
  signed text.
\<close>

definition tagVerify :: "string \<Rightarrow> string \<Rightarrow> string \<Rightarrow> bool" where
  "tagVerify publicKey message sig = (sig = publicKey @ message)"

definition authShip1 :: nodeAuth where
  "authShip1 =
     \<lparr>publicKeys = \<lparr>Keys = (\<lambda>n. if n = ''central'' then Some ''K-central:'' else None),
                     Hash = []\<rparr>,
      SignPrivateKey = ''P-ship1:'', SignPublicKey = ''K-ship1:'',
      configuration = \<lparr>SubscribersDataFolder = ''var'', EnableSignatureCheck = True\<rparr>\<rparr>"

definition signedMsg :: Message where
  "signedMsg =
     Message.Message ''ship1'' [] ''central'' 0 [] REQCliCommand [''bash'', ''-c'', ''tree ./'']
       ''K-central:bash -c tree ./'' [] [] False 5 3 5 3 10 10 ''cmd_result'' ''out.log'' None"

text \<open>
  A request that carries data and names no reply method, the stored copy of a request as
  a reply carries it, and two replies: one to a request that had a \<open>ToNode\<close>, one to a
  request that had none.
\<close>

definition dataMsg :: Message where
  "dataMsg =
     Message.Message ''ship1'' [] ''central'' 7 ''payload'' REQCliCommand [''bash'', ''-c'', ''tree ./'']
       [] [] [] False 5 3 5 3 10 10 ''cmd_result'' ''out.log'' None"

definition prevWithToNode :: Message where
  "prevWithToNode =
     Message.Message ''ship1'' [] ''central'' 7 [] REQCliCommand [] [] REQToFileAppend [] False
       5 3 5 3 10 10 ''foo'' ''bar.log'' None"

definition prevNoToNode :: Message where
  "prevNoToNode =
     Message.Message [] [] ''central'' 7 [] REQCliCommand [] [] REQToFileAppend [] False
       5 3 5 3 10 10 ''foo'' ''bar.log'' None"

definition replyWithToNode :: Message where
  "replyWithToNode =
     Message.Message ''central'' [] ''ship1'' 0 ''stdout'' REQToFileAppend [] [] [] [] True
       5 3 0 0 10 0 ''foo'' ''bar.log'' (Some prevWithToNode)"

definition replyNoToNode :: Message where
  "replyNoToNode =
     Message.Message ''central'' [] ''ship2'' 0 ''stdout'' REQToFileAppend [] [] [] [] True
       5 3 0 0 10 0 ''foo'' ''bar.log'' (Some prevNoToNode)"

text \<open>The same request asking for no reply.\<close>

definition noReplyMsg :: Message where
  "noReplyMsg =
     Message.Message ''ship1'' [] ''central'' 7 ''payload'' REQCliCommand [''bash'', ''-c'', ''tree ./'']
       [] REQNone [] False 5 3 5 3 10 10 ''cmd_result'' ''out.log'' None"

text \<open>
  A path join for concrete inputs: the elements separated by a slash, which is what
  \<open>filepath.Join\<close> gives on Unix for elements that are plain names (not empty, without
  separators or dot elements).
\<close>

definition slashJoin :: "string list \<Rightarrow> string" where
  "slashJoin elems = strings_Join elems ''/''"

section \<open>Fan-out: proofs\<close>

lemma sel_set_ToNode [simp]:
  "Message.ToNode (set_ToNode n m) = n"
  "ToNodes (set_ToNode n m) = ToNodes m"
  "FromNode (set_ToNode n m) = FromNode m"
  "Message.Method (set_ToNode n m) = Message.Method m"
  by (simp_all add: set_ToNode_def)

lemma sel_set_ToNodes [simp]:
  "Message.ToNode (set_ToNodes ns m) = Message.ToNode m"
  "ToNodes (set_ToNodes ns m) = ns"
  "FromNode (set_ToNodes ns m) = FromNode m"
  "Message.Method (set_ToNodes ns m) = Message.Method m"
  by (simp_all add: set_ToNodes_def)

lemma toNodesRange_map:
  "toNodesRange v ns msgs = msgs @ map (\<lambda>n. set_ToNode n (set_ToNodes [] v)) ns"
  by (induction ns arbitrary: msgs) simp_all

lemma checkMessageToNodesRange_fst:
  "fst (checkMessageToNodesRange vs (msgs, errs)) = msgs @ concat (map fanOut_spec vs)"
  by (induction vs arbitrary: msgs errs) (simp_all add: fanOut_spec_def toNodesRange_map)

lemma inj_set_ToNode: "inj (\<lambda>n. set_ToNode n m)"
proof (rule injI)
  fix a b
  assume "set_ToNode a m = set_ToNode b m"
  then have "Message.ToNode (set_ToNode a m) = Message.ToNode (set_ToNode b m)"
    by simp
  then show "a = b" by simp
qed

text \<open>
  Claim C6. For every batch, the output of \<open>checkMessageToNodes\<close> is the input with each
  message replaced, in order, by its fan-out: a message with a non-empty \<open>ToNode\<close> is kept
  as it is (also when \<open>ToNodes\<close> is set), a message with an empty \<open>ToNode\<close> and N listed
  nodes becomes N messages, the k-th with \<open>ToNode\<close> the k-th listed node and
  \<open>ToNodes = nil\<close> (pairwise different messages when the listed nodes are), and a message
  with neither field contributes nothing.
\<close>

theorem checkMessageToNodes_fanOut:
  "fst (checkMessageToNodes MsgSlice) = concat (map fanOut_spec MsgSlice)
   \<and> (Message.ToNode v \<noteq> [] \<longrightarrow> fanOut_spec v = [v])
   \<and> (Message.ToNode v = [] \<and> ToNodes v \<noteq> [] \<longrightarrow>
        length (fanOut_spec v) = length (ToNodes v)
        \<and> map Message.ToNode (fanOut_spec v) = ToNodes v
        \<and> (\<forall>m \<in> set (fanOut_spec v). ToNodes m = [])
        \<and> (distinct (ToNodes v) \<longrightarrow> distinct (fanOut_spec v)))
   \<and> (Message.ToNode v = [] \<and> ToNodes v = [] \<longrightarrow> fanOut_spec v = [])"
proof -
  have batch: "fst (checkMessageToNodes MsgSlice) = concat (map fanOut_spec MsgSlice)"
    by (simp add: checkMessageToNodes_def checkMessageToNodesRange_fst)
  have tos: "map Message.ToNode (map (\<lambda>n. set_ToNode n (set_ToNodes [] v)) ns) = ns" for ns
    by (induction ns) simp_all
  have dist: "distinct ns \<Longrightarrow> distinct (map (\<lambda>n. set_ToNode n (set_ToNodes [] v)) ns)" for ns
    using inj_set_ToNode [of "set_ToNodes [] v"]
    by (auto simp add: distinct_map inj_on_def dest: injD)
  show ?thesis
    using batch tos dist by (auto simp add: fanOut_spec_def)
qed

theorem checkMessageToNodes_fanOut_witness:
  "Message.ToNode cliMsg \<noteq> []
   \<and> Message.ToNode fanMsg = [] \<and> ToNodes fanMsg \<noteq> [] \<and> distinct (ToNodes fanMsg)
   \<and> Message.ToNode noTargetMsg = [] \<and> ToNodes noTargetMsg = []
   \<and> fst (checkMessageToNodes [cliMsg, fanMsg, noTargetMsg])
       = [cliMsg, set_ToNode ''a'' (set_ToNodes [] fanMsg), set_ToNode ''b'' (set_ToNodes [] fanMsg)]
   \<and> length (fanOut_spec fanMsg) = 2
   \<and> distinct (fanOut_spec fanMsg)"
proof -
  have h1: "Message.ToNode cliMsg \<noteq> []"
    by (simp add: cliMsg_def)
  have h2: "Message.ToNode fanMsg = [] \<and> ToNodes fanMsg \<noteq> []"
    by (simp add: fanMsg_def)
  have h3: "distinct (ToNodes fanMsg)"
    by (simp add: fanMsg_def)
  have h4: "Message.ToNode noTargetMsg = [] \<and> ToNodes noTargetMsg = []"
    by (simp add: noTargetMsg_def cliMsg_def)
  have f1: "fanOut_spec cliMsg = [cliMsg]"
    using checkMessageToNodes_fanOut [of "[]" cliMsg] h1 by blast
  have f2: "length (fanOut_spec fanMsg) = length (ToNodes fanMsg)
            \<and> map Message.ToNode (fanOut_spec fanMsg) = ToNodes fanMsg
            \<and> distinct (fanOut_spec fanMsg)"
    using checkMessageToNodes_fanOut [of "[]" fanMsg] h2 h3 by blast
  have f3: "fanOut_spec noTargetMsg = []"
    using checkMessageToNodes_fanOut [of "[]" noTargetMsg] h4 by blast
  have batch: "fst (checkMessageToNodes [cliMsg, fanMsg, noTargetMsg])
               = concat (map fanOut_spec [cliMsg, fanMsg, noTargetMsg])"
    using checkMessageToNodes_fanOut [of "[cliMsg, fanMsg, noTargetMsg]" cliMsg] by blast
  have f2': "fanOut_spec fanMsg
             = [set_ToNode ''a'' (set_ToNodes [] fanMsg), set_ToNode ''b'' (set_ToNodes [] fanMsg)]"
    using h2 by (simp add: fanOut_spec_def) (simp add: fanMsg_def)
  show ?thesis
    using h1 h2 h3 h4 f1 f2 f3 f2' batch by (simp add: fanMsg_def)
qed

section \<open>Subject construction: proofs\<close>

lemma getHandler_empty: "getHandler [] = None"
  by (simp add: getHandler_def GetMethodsAvailable_def)

lemma newSubjectAndMessage_Inr:
  "newSubjectAndMessage m = Inr sm \<Longrightarrow>
     Message sm = m \<and> Message.ToNode m \<noteq> [] \<and> getHandler (Message.Method m) \<noteq> None"
  by (auto simp add: newSubjectAndMessage_def split: option.splits if_splits)

lemma convertRange_all:
  assumes P: "\<And>m sm. newSubjectAndMessage m = Inr sm \<Longrightarrow> P sm"
  shows "convertRange ms (sam, errs) = (sam', errs') \<Longrightarrow> list_all P sam \<Longrightarrow> list_all P sam'"
proof (induction ms arbitrary: sam errs)
  case Nil
  then show ?case by simp
next
  case (Cons m ms)
  show ?case
  proof (cases "newSubjectAndMessage m")
    case (Inl err)
    with Cons.prems have "convertRange ms (sam, errs @ [(m, ErrNewSubjectAndMessage err)]) = (sam', errs')"
      by simp
    from Cons.IH [OF this Cons.prems(2)] show ?thesis .
  next
    case (Inr sm)
    with Cons.prems have step: "convertRange ms (sam @ [sm], errs) = (sam', errs')"
      by simp
    have "list_all P (sam @ [sm])"
      using Cons.prems(2) P [OF Inr] by simp
    from Cons.IH [OF step this] show ?thesis .
  qed
qed

text \<open>
  Claim C7. \<open>newSubjectAndMessage m\<close> fails exactly when \<open>m.ToNode\<close> is empty or
  \<open>m.Method\<close> has no entry in the method table; otherwise it returns the message with
  the subject made of \<open>m.ToNode\<close>, the event kind the table declares for \<open>m.Method\<close>,
  and \<open>m.Method\<close>. Hence every \<open>subjectAndMessage\<close> that \<open>convertBytesToSAMs\<close> returns
  has a non-empty \<open>ToNode\<close> and a \<open>Method\<close> of the table.
\<close>

theorem newSubjectAndMessage_validates:
  "((\<exists>err. newSubjectAndMessage m = Inl err)
      \<longleftrightarrow> (Message.ToNode m = [] \<or> getHandler (Message.Method m) = None))
   \<and> (\<forall>kind. Message.ToNode m \<noteq> [] \<and> getHandler (Message.Method m) = Some kind \<longrightarrow>
         newSubjectAndMessage m
           = Inr \<lparr>subjectAndMessage.Subject = \<lparr>ToNode = Message.ToNode m, Event = kind, Method = Message.Method m\<rparr>,
                  Message = m\<rparr>)
   \<and> (\<forall>sams errs. convertBytesToSAMs yaml_Unmarshal b = (Inr sams, errs) \<longrightarrow>
         (\<forall>sam \<in> set sams. Message.ToNode (Message sam) \<noteq> []
                             \<and> getHandler (Message.Method (Message sam)) \<noteq> None))"
proof (intro conjI allI impI)
  show "(\<exists>err. newSubjectAndMessage m = Inl err)
          \<longleftrightarrow> (Message.ToNode m = [] \<or> getHandler (Message.Method m) = None)"
    using getHandler_empty
    by (auto simp add: newSubjectAndMessage_def split: option.splits)
next
  fix kind
  assume "Message.ToNode m \<noteq> [] \<and> getHandler (Message.Method m) = Some kind"
  then show "newSubjectAndMessage m
           = Inr \<lparr>subjectAndMessage.Subject = \<lparr>ToNode = Message.ToNode m, Event = kind, Method = Message.Method m\<rparr>,
                  Message = m\<rparr>"
    using getHandler_empty by (auto simp add: newSubjectAndMessage_def)
next
  fix sams errs
  assume conv: "convertBytesToSAMs yaml_Unmarshal b = (Inr sams, errs)"
  then obtain MsgSlice where "yaml_Unmarshal b = Inr MsgSlice"
    by (auto simp add: convertBytesToSAMs_def split: sum.splits)
  with conv have "convertRange (fst (checkMessageToNodes MsgSlice))
                    ([], snd (checkMessageToNodes MsgSlice)) = (sams, errs)"
    by (auto simp add: convertBytesToSAMs_def split: prod.splits)
  from convertRange_all [where P = "\<lambda>sam. Message.ToNode (Message sam) \<noteq> []
                             \<and> getHandler (Message.Method (Message sam)) \<noteq> None", OF _ this]
    newSubjectAndMessage_Inr
  show "\<forall>sam \<in> set sams. Message.ToNode (Message sam) \<noteq> []
                             \<and> getHandler (Message.Method (Message sam)) \<noteq> None"
    by (simp add: list_all_iff)
qed

theorem newSubjectAndMessage_validates_witness:
  "Message.ToNode cliMsg \<noteq> [] \<and> getHandler (Message.Method cliMsg) = Some EventACK
   \<and> newSubjectAndMessage cliMsg
       = Inr \<lparr>subjectAndMessage.Subject = \<lparr>ToNode = ''ship1'', Event = EventACK, Method = REQCliCommand\<rparr>,
              Message = cliMsg\<rparr>
   \<and> (\<exists>err. newSubjectAndMessage noTargetMsg = Inl err)
   \<and> (\<exists>err. newSubjectAndMessage unknownMethodMsg = Inl err)
   \<and> fst (convertBytesToSAMs (\<lambda>b. Inr [cliMsg, noTargetMsg, unknownMethodMsg]) [])
       = Inr [\<lparr>subjectAndMessage.Subject = \<lparr>ToNode = ''ship1'', Event = EventACK, Method = REQCliCommand\<rparr>,
               Message = cliMsg\<rparr>]
   \<and> list_all (\<lambda>sam. Message.ToNode (Message sam) \<noteq> []
                         \<and> getHandler (Message.Method (Message sam)) \<noteq> None)
        [\<lparr>subjectAndMessage.Subject = \<lparr>ToNode = ''ship1'', Event = EventACK, Method = REQCliCommand\<rparr>,
          Message = cliMsg\<rparr>]"
proof -
  let ?yaml = "\<lambda>b::string. (Inr [cliMsg, noTargetMsg, unknownMethodMsg] :: error + Message list)"
  let ?sam = "\<lparr>subjectAndMessage.Subject = \<lparr>ToNode = ''ship1'', Event = EventACK, Method = REQCliCommand\<rparr>,
               Message = cliMsg\<rparr>"
  have h1: "Message.ToNode cliMsg \<noteq> [] \<and> getHandler (Message.Method cliMsg) = Some EventACK"
    by (simp add: cliMsg_def getHandler_def GetMethodsAvailable_def)
  have h2: "Message.ToNode noTargetMsg = []"
    by (simp add: noTargetMsg_def)
  have h3: "getHandler (Message.Method unknownMethodMsg) = None"
    by (simp add: unknownMethodMsg_def getHandler_def GetMethodsAvailable_def)
  have r1: "newSubjectAndMessage cliMsg = Inr ?sam"
    using newSubjectAndMessage_validates [of cliMsg] h1 by (simp add: cliMsg_def)
  have r2: "\<exists>err. newSubjectAndMessage noTargetMsg = Inl err"
    using newSubjectAndMessage_validates [of noTargetMsg] h2 by blast
  have r3: "\<exists>err. newSubjectAndMessage unknownMethodMsg = Inl err"
    using newSubjectAndMessage_validates [of unknownMethodMsg] h3 by blast
  have c0: "fst (checkMessageToNodes [cliMsg, noTargetMsg, unknownMethodMsg]) = [cliMsg, unknownMethodMsg]"
    by (simp add: checkMessageToNodes_def noTargetMsg_def) (simp add: cliMsg_def unknownMethodMsg_def)
  obtain e2 e3 where e: "newSubjectAndMessage noTargetMsg = Inl e2"
      "newSubjectAndMessage unknownMethodMsg = Inl e3"
    using r2 r3 by blast
  have conv: "fst (convertBytesToSAMs ?yaml []) = Inr [?sam]"
    using c0 r1 e
    by (auto simp add: convertBytesToSAMs_def split: prod.splits)
  have "\<forall>sam \<in> set [?sam]. Message.ToNode (Message sam) \<noteq> []
                             \<and> getHandler (Message.Method (Message sam)) \<noteq> None"
    using newSubjectAndMessage_validates [of cliMsg ?yaml "[]"] conv
    by (metis prod.collapse)
  then have "list_all (\<lambda>sam. Message.ToNode (Message sam) \<noteq> []
                         \<and> getHandler (Message.Method (Message sam)) \<noteq> None) [?sam]"
    by (simp add: list_all_iff)
  with h1 r1 r2 r3 conv show ?thesis by blast
qed

section \<open>Publisher: proofs\<close>

lemma after_simps [simp]:
  "fst (after calls rest) = calls @ fst rest"
  "snd (after calls rest) = snd rest"
  by (simp_all add: after_def)

lemma publishes_append [simp]: "publishes (a @ b) = publishes a + publishes b"
  by (simp add: publishes_def)

lemma subscribes_append [simp]: "subscribes (a @ b) = subscribes a + subscribes b"
  by (simp add: subscribes_def)

lemma waits_append [simp]: "waits (a @ b) = waits a + waits b"
  by (simp add: waits_def)

lemma count_Nil [simp]: "publishes [] = 0" "subscribes [] = 0" "waits [] = 0"
  by (simp_all add: publishes_def subscribes_def waits_def)

lemma count_Cons [simp]:
  "publishes (c # tr) = (if isPublish c then 1 else 0) + publishes tr"
  "subscribes (c # tr) = (if isSubscribe c then 1 else 0) + subscribes tr"
  "waits (c # tr) = (if isNextMsg c then 1 else 0) + waits tr"
  by (simp_all add: publishes_def subscribes_def waits_def)

text \<open>Every payload handed to the broker is the encoding of the message being delivered.\<close>

lemma deliver_carries:
  "list_all (carries m) (fst (messageDeliverNats_for proc m script ra))"
  by (induction script arbitrary: ra) (simp_all add: Let_def split: option.splits)

text \<open>With \<open>R \<ge> 1\<close> retries and \<open>ra < R\<close> attempts counted, at most \<open>R - ra\<close> publishes follow.\<close>

lemma deliver_publishes_bound:
  "isACK proc \<Longrightarrow> ra < Retries m \<Longrightarrow> 0 \<le> ra \<Longrightarrow>
     int (publishes (fst (messageDeliverNats_for proc m script ra))) \<le> Retries m - ra"
proof (induction script arbitrary: ra)
  case Nil
  then show ?case by simp
next
  case (Cons r rs)
  have same: "int (publishes (fst (messageDeliverNats_for proc m rs ra))) \<le> Retries m - ra"
    using Cons.IH [of ra] Cons.prems by simp
  have nxt: "ra + 1 < Retries m \<Longrightarrow>
      int (publishes (fst (messageDeliverNats_for proc m rs (ra + 1)))) \<le> Retries m - (ra + 1)"
    using Cons.IH [of "ra + 1"] Cons.prems by simp
  show ?case
  proof (cases "subscribeSyncErr r \<or> publishMsgErr r")
    case True
    with same show ?thesis by (auto simp add: Let_def)
  next
    case False
    show ?thesis
    proof (cases "nextMsgReply r")
      case (Some reply)
      with False Cons.prems show ?thesis by (simp add: Let_def isACK_def)
    next
      case None
      show ?thesis
      proof (cases "ra + 1 < Retries m")
        case True
        with nxt None False Cons.prems show ?thesis by (simp add: Let_def isACK_def)
      next
        case over: False
        with None False Cons.prems show ?thesis by (simp add: Let_def isACK_def)
      qed
    qed
  qed
qed

text \<open>Failing passes first, then an answered pass: the function returns after one publish.\<close>

lemma deliver_answered:
  "isACK proc \<Longrightarrow> list_all failing fails \<Longrightarrow> answered r \<Longrightarrow>
     snd (messageDeliverNats_for proc m (fails @ r # rest) ra) = Returned
     \<and> publishes (fst (messageDeliverNats_for proc m (fails @ r # rest) ra)) = 1"
proof (induction fails)
  case Nil
  then show ?case by (auto simp add: Let_def isACK_def answered_def)
next
  case (Cons f fails)
  then show ?case by (auto simp add: Let_def failing_def)
qed

text \<open>No pass is answered and enough passes time out: max retries is logged and the function returns.\<close>

lemma deliver_max_retries:
  "isACK proc \<Longrightarrow> ra < Retries m \<Longrightarrow> 0 \<le> ra \<Longrightarrow>
   list_all (\<lambda>r. failing r \<or> timingOut r) script \<Longrightarrow>
   Retries m - ra \<le> int (length (filter timingOut script)) \<Longrightarrow>
     snd (messageDeliverNats_for proc m script ra) = Returned
     \<and> int (publishes (fst (messageDeliverNats_for proc m script ra))) = Retries m - ra
     \<and> fst (messageDeliverNats_for proc m script ra) \<noteq> []
     \<and> last (fst (messageDeliverNats_for proc m script ra)) = LogMaxRetries (Retries m)"
proof (induction script arbitrary: ra)
  case Nil
  then show ?case by simp
next
  case (Cons r rs)
  show ?case
  proof (cases "failing r")
    case True
    then have nt: "\<not> timingOut r" by (auto simp add: failing_def timingOut_def)
    from Cons.prems nt have "Retries m - ra \<le> int (length (filter timingOut rs))" by simp
    from Cons.IH [OF Cons.prems(1,2,3) _ this] Cons.prems(4)
    have "snd (messageDeliverNats_for proc m rs ra) = Returned
     \<and> int (publishes (fst (messageDeliverNats_for proc m rs ra))) = Retries m - ra
     \<and> fst (messageDeliverNats_for proc m rs ra) \<noteq> []
     \<and> last (fst (messageDeliverNats_for proc m rs ra)) = LogMaxRetries (Retries m)"
      by simp
    with True show ?thesis by (auto simp add: Let_def failing_def)
  next
    case False
    with Cons.prems(4) have to: "timingOut r" by simp
    then have r: "\<not> subscribeSyncErr r" "\<not> publishMsgErr r" "nextMsgReply r = None"
      by (simp_all add: timingOut_def)
    show ?thesis
    proof (cases "ra + 1 < Retries m")
      case True
      from Cons.prems to have "Retries m - (ra + 1) \<le> int (length (filter timingOut rs))" by simp
      from Cons.IH [OF Cons.prems(1) True _ _ this] Cons.prems
      have "snd (messageDeliverNats_for proc m rs (ra + 1)) = Returned
       \<and> int (publishes (fst (messageDeliverNats_for proc m rs (ra + 1)))) = Retries m - (ra + 1)
       \<and> fst (messageDeliverNats_for proc m rs (ra + 1)) \<noteq> []
       \<and> last (fst (messageDeliverNats_for proc m rs (ra + 1))) = LogMaxRetries (Retries m)"
        by simp
      with r True Cons.prems(1,2,3) show ?thesis by (simp add: Let_def isACK_def)
    next
      case over: False
      with Cons.prems(2) have "ra + 1 = Retries m" by simp
      with r Cons.prems(1,2,3) show ?thesis by (simp add: Let_def isACK_def)
    qed
  qed
qed

text \<open>With \<open>Retries = 0\<close> and no pass answered, the loop goes on, one publish per timed-out pass.\<close>

lemma deliver_forever:
  "isACK proc \<Longrightarrow> Retries m = 0 \<Longrightarrow> list_all (\<lambda>r. failing r \<or> timingOut r) script \<Longrightarrow>
     snd (messageDeliverNats_for proc m script ra) = Looping
     \<and> publishes (fst (messageDeliverNats_for proc m script ra)) = length (filter timingOut script)"
proof (induction script arbitrary: ra)
  case Nil
  then show ?case by simp
next
  case (Cons r rs)
  from Cons.prems have rest: "list_all (\<lambda>r. failing r \<or> timingOut r) rs" by simp
  note IH = Cons.IH [OF Cons.prems(1,2) rest]
  show ?case
  proof (cases "failing r")
    case True
    then have nt: "\<not> timingOut r" by (auto simp add: failing_def timingOut_def)
    with True IH [of ra] show ?thesis by (auto simp add: Let_def failing_def)
  next
    case False
    with Cons.prems(3) have to: "timingOut r" by simp
    then have r: "\<not> subscribeSyncErr r" "\<not> publishMsgErr r" "nextMsgReply r = None"
      by (simp_all add: timingOut_def)
    with to IH [of "ra + 1"] Cons.prems(1,2) show ?thesis by (simp add: Let_def isACK_def)
  qed
qed

text \<open>
  Claim C1. For a process whose subject kind is ACK and a message with \<open>Retries = R\<close>:
  with \<open>R \<ge> 1\<close>, whatever the broker does, at most \<open>R\<close> publishes reach the broker;
  when the first wait is answered (after any number of passes in which the subscribe or
  the publish call itself failed) the function returns after exactly one publish; when
  no wait is answered, the \<open>R\<close>-th timeout makes the function log that max retries is
  reached and return, after exactly \<open>R\<close> publishes; with \<open>R = 0\<close> and no wait answered
  the loop never returns and publishes once per timed-out pass, without bound. Every
  publish carries the same message.
\<close>

theorem messageDeliverNats_ACK_retries:
  "isACK proc \<Longrightarrow>
   (1 \<le> Retries m \<longrightarrow> int (publishes (fst (messageDeliverNats proc m script))) \<le> Retries m)
   \<and> (list_all failing fails \<and> answered r \<longrightarrow>
         snd (messageDeliverNats proc m (fails @ r # rest)) = Returned
         \<and> publishes (fst (messageDeliverNats proc m (fails @ r # rest))) = 1)
   \<and> (1 \<le> Retries m \<and> list_all (\<lambda>r. failing r \<or> timingOut r) script
        \<and> Retries m \<le> int (length (filter timingOut script)) \<longrightarrow>
         snd (messageDeliverNats proc m script) = Returned
         \<and> int (publishes (fst (messageDeliverNats proc m script))) = Retries m
         \<and> last (fst (messageDeliverNats proc m script)) = LogMaxRetries (Retries m))
   \<and> (Retries m = 0 \<and> list_all (\<lambda>r. failing r \<or> timingOut r) script \<longrightarrow>
         snd (messageDeliverNats proc m script) = Looping
         \<and> publishes (fst (messageDeliverNats proc m script)) = length (filter timingOut script))
   \<and> list_all (carries m) (fst (messageDeliverNats proc m script))"
proof -
  assume ack: "isACK proc"
  have bound: "1 \<le> Retries m \<Longrightarrow>
      int (publishes (fst (messageDeliverNats proc m script))) \<le> Retries m"
    using deliver_publishes_bound [OF ack, of 0 m script]
    by (simp add: messageDeliverNats_def)
  have first: "list_all failing fails \<Longrightarrow> answered r \<Longrightarrow>
      snd (messageDeliverNats proc m (fails @ r # rest)) = Returned
      \<and> publishes (fst (messageDeliverNats proc m (fails @ r # rest))) = 1"
    using deliver_answered [OF ack, of fails r m rest 0]
    by (simp add: messageDeliverNats_def)
  have mx: "1 \<le> Retries m \<Longrightarrow> list_all (\<lambda>r. failing r \<or> timingOut r) script \<Longrightarrow>
      Retries m \<le> int (length (filter timingOut script)) \<Longrightarrow>
      snd (messageDeliverNats proc m script) = Returned
      \<and> int (publishes (fst (messageDeliverNats proc m script))) = Retries m
      \<and> last (fst (messageDeliverNats proc m script)) = LogMaxRetries (Retries m)"
    using deliver_max_retries [OF ack, of 0 m script]
    by (simp add: messageDeliverNats_def)
  have forever: "Retries m = 0 \<Longrightarrow> list_all (\<lambda>r. failing r \<or> timingOut r) script \<Longrightarrow>
      snd (messageDeliverNats proc m script) = Looping
      \<and> publishes (fst (messageDeliverNats proc m script)) = length (filter timingOut script)"
    using deliver_forever [OF ack, of m script 0]
    by (simp add: messageDeliverNats_def)
  have same: "list_all (carries m) (fst (messageDeliverNats proc m script))"
    using deliver_carries [of m proc script 0]
    by (simp add: messageDeliverNats_def)
  from bound first mx forever same show ?thesis by blast
qed

theorem messageDeliverNats_ACK_retries_witness:
  "isACK ackProc \<and> 1 \<le> Retries cliMsg
   \<and> list_all failing [subscribeFailRound] \<and> answered replyRound
   \<and> snd (messageDeliverNats ackProc cliMsg [subscribeFailRound, replyRound, timeoutRound]) = Returned
   \<and> publishes (fst (messageDeliverNats ackProc cliMsg
                        [subscribeFailRound, replyRound, timeoutRound])) = 1
   \<and> list_all (\<lambda>r. failing r \<or> timingOut r)
        [timeoutRound, publishFailRound, timeoutRound, timeoutRound, timeoutRound]
   \<and> Retries cliMsg
        \<le> int (length (filter timingOut
                   [timeoutRound, publishFailRound, timeoutRound, timeoutRound, timeoutRound]))
   \<and> snd (messageDeliverNats ackProc cliMsg
             [timeoutRound, publishFailRound, timeoutRound, timeoutRound, timeoutRound]) = Returned
   \<and> publishes (fst (messageDeliverNats ackProc cliMsg
             [timeoutRound, publishFailRound, timeoutRound, timeoutRound, timeoutRound])) = 3
   \<and> last (fst (messageDeliverNats ackProc cliMsg
             [timeoutRound, publishFailRound, timeoutRound, timeoutRound, timeoutRound]))
        = LogMaxRetries 3
   \<and> Retries cliMsgForever = 0
   \<and> snd (messageDeliverNats ackProc cliMsgForever
             [timeoutRound, timeoutRound, timeoutRound, timeoutRound]) = Looping
   \<and> publishes (fst (messageDeliverNats ackProc cliMsgForever
             [timeoutRound, timeoutRound, timeoutRound, timeoutRound])) = 4"
proof -
  let ?s = "[timeoutRound, publishFailRound, timeoutRound, timeoutRound, timeoutRound]"
  let ?t = "[timeoutRound, timeoutRound, timeoutRound, timeoutRound]"
  have ack: "isACK ackProc"
    by (simp add: isACK_def ackProc_def)
  have r3: "Retries cliMsg = 3"
    by (simp add: cliMsg_def)
  have r0: "Retries cliMsgForever = 0"
    by (simp add: cliMsgForever_def)
  have kinds: "failing subscribeFailRound" "failing publishFailRound" "timingOut timeoutRound"
    "answered replyRound" "\<not> timingOut publishFailRound"
    by (simp_all add: failing_def timingOut_def answered_def subscribeFailRound_def
        publishFailRound_def timeoutRound_def replyRound_def)
  have h1: "list_all failing [subscribeFailRound] \<and> answered replyRound"
    using kinds by simp
  have h2: "list_all (\<lambda>r. failing r \<or> timingOut r) ?s"
    using kinds by simp
  have h3: "Retries cliMsg \<le> int (length (filter timingOut ?s))"
    using kinds r3 by simp
  have h4: "list_all (\<lambda>r. failing r \<or> timingOut r) ?t"
    using kinds by simp
  have c1: "snd (messageDeliverNats ackProc cliMsg ([subscribeFailRound] @ replyRound # [timeoutRound])) = Returned
     \<and> publishes (fst (messageDeliverNats ackProc cliMsg
                         ([subscribeFailRound] @ replyRound # [timeoutRound]))) = 1"
    using messageDeliverNats_ACK_retries
      [OF ack, of cliMsg "[]" "[subscribeFailRound]" replyRound "[timeoutRound]"] h1
    by blast
  have c2: "snd (messageDeliverNats ackProc cliMsg ?s) = Returned
     \<and> int (publishes (fst (messageDeliverNats ackProc cliMsg ?s))) = Retries cliMsg
     \<and> last (fst (messageDeliverNats ackProc cliMsg ?s)) = LogMaxRetries (Retries cliMsg)"
    using messageDeliverNats_ACK_retries [OF ack, of cliMsg ?s "[]" replyRound "[]"] h2 h3 r3
    by simp
  have c3: "snd (messageDeliverNats ackProc cliMsgForever ?t) = Looping
     \<and> publishes (fst (messageDeliverNats ackProc cliMsgForever ?t))
         = length (filter timingOut ?t)"
    using messageDeliverNats_ACK_retries [OF ack, of cliMsgForever ?t "[]" replyRound "[]"] h4 r0
    by blast
  have len: "length (filter timingOut ?t) = 4"
    using kinds by simp
  from ack r3 r0 h1 h2 h3 c1 c2 c3 len show ?thesis by simp
qed

section \<open>Publisher, NACK subjects: proofs\<close>

lemma nack_not_ack: "isNACK proc \<Longrightarrow> \<not> (Event (subject proc) = CommandACK \<or> Event (subject proc) = EventACK)"
  by (auto simp add: isNACK_def)

lemma deliver_waits_nack:
  "isNACK proc \<Longrightarrow> waits (fst (messageDeliverNats_for proc m script ra)) = 0"
proof (induction script arbitrary: ra)
  case Nil
  then show ?case by simp
next
  case (Cons r rs)
  from nack_not_ack [OF Cons.prems] Cons.IH [OF Cons.prems, of ra]
  show ?case by (simp add: Let_def)
qed

lemma deliver_nack:
  "isNACK proc \<Longrightarrow> list_all failing fails \<Longrightarrow> \<not> failing r \<Longrightarrow>
     snd (messageDeliverNats_for proc m (fails @ r # rest) ra) = Returned
     \<and> publishes (fst (messageDeliverNats_for proc m (fails @ r # rest) ra)) = 1
     \<and> subscribes (fst (messageDeliverNats_for proc m (fails @ r # rest) ra))
         = 1 + length (filter (\<lambda>r. \<not> subscribeSyncErr r) fails)
     \<and> last (fst (messageDeliverNats_for proc m (fails @ r # rest) ra))
         = PublishMsg \<lparr>nats_Msg.Subject = name (subject proc),
                        Reply = ''reply.'' @ name (subject proc), Data = Gob m\<rparr> True"
proof (induction fails)
  case Nil
  from nack_not_ack [OF Nil(1)] Nil(3) show ?case
    by (simp add: Let_def failing_def)
next
  case (Cons f fails)
  then have IH: "snd (messageDeliverNats_for proc m (fails @ r # rest) ra) = Returned
     \<and> publishes (fst (messageDeliverNats_for proc m (fails @ r # rest) ra)) = 1
     \<and> subscribes (fst (messageDeliverNats_for proc m (fails @ r # rest) ra))
         = 1 + length (filter (\<lambda>r. \<not> subscribeSyncErr r) fails)
     \<and> last (fst (messageDeliverNats_for proc m (fails @ r # rest) ra))
         = PublishMsg \<lparr>nats_Msg.Subject = name (subject proc),
                        Reply = ''reply.'' @ name (subject proc), Data = Gob m\<rparr> True"
    by simp
  then have ne: "fst (messageDeliverNats_for proc m (fails @ r # rest) ra) \<noteq> []"
    by auto
  from Cons.prems(2) have f: "subscribeSyncErr f \<or> publishMsgErr f"
    by (simp add: failing_def)
  show ?case
  proof (cases "subscribeSyncErr f")
    case True
    with IH ne show ?thesis by (simp add: Let_def)
  next
    case False
    with f have "publishMsgErr f" by simp
    with False IH ne show ?thesis by (simp add: Let_def)
  qed
qed

text \<open>
  Claim C2 as stated fails: the subscription to the reply inbox is created on every pass,
  before the kind of the subject is looked at. On the NACK subject of \<open>REQHello\<close>, with a
  broker that accepts both calls, one subscription is created, not zero.
\<close>

theorem messageDeliverNats_NACK_subscribes_counterexample:
  "isNACK nackProc
   \<and> \<not> subscribes (fst (messageDeliverNats nackProc helloMsg [timeoutRound])) = 0"
  by (simp add: isNACK_def nackProc_def messageDeliverNats_def timeoutRound_def Let_def)

text \<open>
  Claim C2, amended. For a process whose subject kind is NACK: once the subscribe and the
  publish call of a pass both succeed (after any number of passes in which one of them
  failed), the function returns right after that publish, which is the only publish that
  reached the broker and the last call made; it never waits for a reply; and it has
  created one subscription to the reply inbox in every pass whose subscribe call
  succeeded, this last pass included. When the first pass succeeds the whole run is one
  subscription followed by one publish.
\<close>

theorem messageDeliverNats_NACK_once:
  "isNACK proc \<Longrightarrow>
   (list_all failing fails \<and> \<not> failing r \<longrightarrow>
      snd (messageDeliverNats proc m (fails @ r # rest)) = Returned
      \<and> publishes (fst (messageDeliverNats proc m (fails @ r # rest))) = 1
      \<and> subscribes (fst (messageDeliverNats proc m (fails @ r # rest)))
          = 1 + length (filter (\<lambda>r. \<not> subscribeSyncErr r) fails)
      \<and> last (fst (messageDeliverNats proc m (fails @ r # rest)))
          = PublishMsg \<lparr>nats_Msg.Subject = name (subject proc),
                         Reply = ''reply.'' @ name (subject proc), Data = Gob m\<rparr> True)
   \<and> (\<not> failing r \<longrightarrow>
        messageDeliverNats proc m (r # rest)
          = ([SubscribeSync (''reply.'' @ name (subject proc)) True,
              PublishMsg \<lparr>nats_Msg.Subject = name (subject proc),
                          Reply = ''reply.'' @ name (subject proc), Data = Gob m\<rparr> True],
             Returned))
   \<and> waits (fst (messageDeliverNats proc m script)) = 0"
proof -
  assume nack: "isNACK proc"
  have a: "list_all failing fails \<Longrightarrow> \<not> failing r \<Longrightarrow>
      snd (messageDeliverNats proc m (fails @ r # rest)) = Returned
      \<and> publishes (fst (messageDeliverNats proc m (fails @ r # rest))) = 1
      \<and> subscribes (fst (messageDeliverNats proc m (fails @ r # rest)))
          = 1 + length (filter (\<lambda>r. \<not> subscribeSyncErr r) fails)
      \<and> last (fst (messageDeliverNats proc m (fails @ r # rest)))
          = PublishMsg \<lparr>nats_Msg.Subject = name (subject proc),
                         Reply = ''reply.'' @ name (subject proc), Data = Gob m\<rparr> True"
    using deliver_nack [OF nack, of fails r m rest 0]
    by (simp add: messageDeliverNats_def)
  have b: "\<not> failing r \<Longrightarrow>
        messageDeliverNats proc m (r # rest)
          = ([SubscribeSync (''reply.'' @ name (subject proc)) True,
              PublishMsg \<lparr>nats_Msg.Subject = name (subject proc),
                          Reply = ''reply.'' @ name (subject proc), Data = Gob m\<rparr> True],
             Returned)"
    using nack_not_ack [OF nack]
    by (simp add: messageDeliverNats_def Let_def failing_def)
  have c: "waits (fst (messageDeliverNats proc m script)) = 0"
    using deliver_waits_nack [OF nack, of m script 0]
    by (simp add: messageDeliverNats_def)
  from a b c show ?thesis by blast
qed

theorem messageDeliverNats_NACK_once_witness:
  "isNACK nackProc \<and> list_all failing [publishFailRound, subscribeFailRound]
   \<and> \<not> failing timeoutRound
   \<and> snd (messageDeliverNats nackProc helloMsg
            [publishFailRound, subscribeFailRound, timeoutRound, timeoutRound]) = Returned
   \<and> publishes (fst (messageDeliverNats nackProc helloMsg
            [publishFailRound, subscribeFailRound, timeoutRound, timeoutRound])) = 1
   \<and> subscribes (fst (messageDeliverNats nackProc helloMsg
            [publishFailRound, subscribeFailRound, timeoutRound, timeoutRound])) = 2
   \<and> waits (fst (messageDeliverNats nackProc helloMsg
            [publishFailRound, subscribeFailRound, timeoutRound, timeoutRound])) = 0
   \<and> messageDeliverNats nackProc helloMsg [timeoutRound]
       = ([SubscribeSync ''reply.central.REQHello.EventNACK'' True,
           PublishMsg \<lparr>nats_Msg.Subject = ''central.REQHello.EventNACK'',
                       Reply = ''reply.central.REQHello.EventNACK'',
                       Data = Gob helloMsg\<rparr> True],
          Returned)"
proof -
  let ?s = "[publishFailRound, subscribeFailRound, timeoutRound, timeoutRound]"
  have nack: "isNACK nackProc"
    by (simp add: isNACK_def nackProc_def)
  have kinds: "failing subscribeFailRound" "failing publishFailRound" "\<not> failing timeoutRound"
    "subscribeSyncErr subscribeFailRound" "\<not> subscribeSyncErr publishFailRound"
    by (simp_all add: failing_def subscribeFailRound_def publishFailRound_def timeoutRound_def)
  have nm: "name (subject nackProc) = ''central.REQHello.EventNACK''"
    by (simp add: name_def nackProc_def)
  have c1: "snd (messageDeliverNats nackProc helloMsg
                   ([publishFailRound, subscribeFailRound] @ timeoutRound # [timeoutRound])) = Returned
      \<and> publishes (fst (messageDeliverNats nackProc helloMsg
                   ([publishFailRound, subscribeFailRound] @ timeoutRound # [timeoutRound]))) = 1
      \<and> subscribes (fst (messageDeliverNats nackProc helloMsg
                   ([publishFailRound, subscribeFailRound] @ timeoutRound # [timeoutRound])))
          = 1 + length (filter (\<lambda>r. \<not> subscribeSyncErr r) [publishFailRound, subscribeFailRound])"
    using messageDeliverNats_NACK_once
      [OF nack, of "[publishFailRound, subscribeFailRound]" timeoutRound helloMsg "[timeoutRound]" "[]"]
      kinds
    by simp
  have c2: "waits (fst (messageDeliverNats nackProc helloMsg ?s)) = 0"
    using messageDeliverNats_NACK_once [OF nack, of "[]" timeoutRound helloMsg "[]" ?s]
    by blast
  have c3: "messageDeliverNats nackProc helloMsg [timeoutRound]
       = ([SubscribeSync (''reply.'' @ name (subject nackProc)) True,
           PublishMsg \<lparr>nats_Msg.Subject = name (subject nackProc),
                       Reply = ''reply.'' @ name (subject nackProc),
                       Data = Gob helloMsg\<rparr> True],
          Returned)"
    using messageDeliverNats_NACK_once [OF nack, of "[]" timeoutRound helloMsg "[]" "[]"] kinds
    by blast
  from nack kinds c1 c2 c3 nm show ?thesis by simp
qed

section \<open>Subscriber: proofs\<close>

text \<open>
  The ACK branch with a sender that is not allowed: no handler runs, and the refusal goes
  out on the reply subject. This half of claim C3 holds.
\<close>

lemma subscriberHandler_ACK_not_allowed:
  "isACK p \<Longrightarrow> FromNode (gobDecode (Data msg)) \<notin> allowedReceivers p \<Longrightarrow>
   ''*'' \<notin> allowedReceivers p \<Longrightarrow>
     subscriberHandler ma p thisNode msg
       = Inr [NatsPublish (Reply msg) (''not allowed from '' @ FromNode (gobDecode (Data msg))),
              SendErrorLogMessage thisNode]"
  by (simp add: subscriberHandler_def isACK_def Let_def)

text \<open>The NACK branch never looks at \<open>allowedReceivers\<close>: a known method is always run.\<close>

lemma subscriberHandler_NACK_runs:
  "isNACK p \<Longrightarrow> ma (Message.Method (gobDecode (Data msg))) = Some h \<Longrightarrow>
     subscriberHandler ma p thisNode msg
       = Inr [HandlerCall (Message.Method (gobDecode (Data msg))) (gobDecode (Data msg)) thisNode]"
  using nack_not_ack [of p]
  by (simp add: subscriberHandler_def isNACK_def Let_def CheckIfExists_def)

text \<open>
  Claim C3, the code at the failing input. The NACK subscriber on \<open>central\<close> allows
  \<open>central\<close> only; a hello from \<open>ship1\<close> arrives. Neither \<open>ship1\<close> nor \<open>*\<close> is in
  \<open>allowedReceivers\<close>, and the handler is invoked all the same: the message is not
  dropped.
\<close>

theorem subscriberHandler_NACK_ignores_allowedReceivers:
  "isNACK nackProc
   \<and> FromNode helloMsg \<notin> allowedReceivers nackProc
   \<and> ''*'' \<notin> allowedReceivers nackProc
   \<and> subscriberHandler twoMethods nackProc ''central'' helloDelivery
       = Inr [HandlerCall REQHello helloMsg ''central'']"
  by (simp add: isNACK_def nackProc_def helloMsg_def helloDelivery_def subscriberHandler_def
      twoMethods_def CheckIfExists_def Let_def)

text \<open>
  A method the table does not have: wherever the handler would be called, the call is on
  the nil handler.
\<close>

lemma subscriberHandler_unknown_method:
  "ma (Message.Method (gobDecode (Data msg))) = None \<Longrightarrow>
   (isACK p \<and> (FromNode (gobDecode (Data msg)) \<in> allowedReceivers p \<or> ''*'' \<in> allowedReceivers p))
     \<or> isNACK p \<Longrightarrow>
     subscriberHandler ma p thisNode msg = Inl NilHandlerDereference"
  using nack_not_ack [of p]
  by (auto simp add: subscriberHandler_def isACK_def isNACK_def Let_def CheckIfExists_def)

text \<open>
  Claim C5, the code at the failing input. A message from an allowed sender whose method
  \<open>REQNoSuch\<close> is not in the table reaches the ACK subscriber, and likewise the NACK
  subscriber: after the log line the handler is called through the nil value, and the
  run ends in a panic instead of discarding the message.
\<close>

theorem subscriberHandler_unknown_method_panics:
  "twoMethods (Message.Method unknownMethodMsg) = None
   \<and> FromNode unknownMethodMsg \<in> allowedReceivers ackProc
   \<and> subscriberHandler twoMethods ackProc ''ship1'' unknownMethodDelivery
       = Inl NilHandlerDereference
   \<and> subscriberHandler twoMethods nackProc ''central'' unknownMethodDelivery
       = Inl NilHandlerDereference"
  by (simp add: ackProc_def nackProc_def unknownMethodMsg_def unknownMethodDelivery_def
      subscriberHandler_def twoMethods_def CheckIfExists_def Let_def)

section \<open>Startup folder: proofs\<close>

text \<open>
  Claim C9, the code at the failing input. A startup file holds two messages in a row
  with an empty \<open>FromNode\<close>. The removal loop deletes the first, which moves the second
  to the index just visited; the bounds check then ends the loop. The second message
  stays in the batch and its handler is invoked. With a message that has a sender
  between the two, the loop reads past the end of the shortened slice and panics.
\<close>

theorem readStartupFile_keeps_blank_FromNode:
  "FromNode blankFromA = [] \<and> FromNode blankFromB = []
   \<and> readStartupFile (\<lambda>b. Inr [blankFromA, blankFromB]) startupProcs ''ship1'' []
       = Inr [ErrSend zeroMessage ErrMissingFromField,
              HandlerCall REQCliCommand blankFromB ''ship1'']
   \<and> readStartupFile (\<lambda>b. Inr [blankFromA, cliMsg, blankFromB]) startupProcs ''ship1'' []
       = Inl IndexOutOfRange"
proof -
  let ?sub = "\<lparr>Subject.ToNode = ''ship1'', Event = EventACK, Method = REQCliCommand\<rparr>"
  let ?A = "\<lparr>subjectAndMessage.Subject = ?sub, Message = blankFromA\<rparr>"
  let ?B = "\<lparr>subjectAndMessage.Subject = ?sub, Message = blankFromB\<rparr>"
  let ?C = "\<lparr>subjectAndMessage.Subject = ?sub, Message = cliMsg\<rparr>"
  have blank: "FromNode blankFromA = []" "FromNode blankFromB = []" "FromNode cliMsg \<noteq> []"
    by (simp_all add: blankFromA_def blankFromB_def cliMsg_def)
  have cli: "getHandler REQCliCommand = Some EventACK"
    by (simp add: getHandler_def GetMethodsAvailable_def)
  have sams: "newSubjectAndMessage blankFromA = Inr ?A" "newSubjectAndMessage blankFromB = Inr ?B"
    "newSubjectAndMessage cliMsg = Inr ?C"
    using cli by (simp_all add: newSubjectAndMessage_def blankFromA_def blankFromB_def cliMsg_def)
  have to: "Message.ToNode blankFromA \<noteq> []" "Message.ToNode blankFromB \<noteq> []"
    "Message.ToNode cliMsg \<noteq> []"
    by (simp_all add: blankFromA_def blankFromB_def cliMsg_def)
  have conv2: "convertBytesToSAMs (\<lambda>b. Inr [blankFromA, blankFromB]) (trimNUL []) = (Inr [?A, ?B], [])"
    using sams to by (simp add: convertBytesToSAMs_def checkMessageToNodes_def)
  have conv3: "convertBytesToSAMs (\<lambda>b. Inr [blankFromA, cliMsg, blankFromB]) (trimNUL [])
               = (Inr [?A, ?C, ?B], [])"
    using sams to by (simp add: convertBytesToSAMs_def checkMessageToNodes_def)
  have filt2: "checkFromNodeRange 0 (length [?A, ?B]) [?A, ?B] []
               = Inr ([?B], [(zeroMessage, ErrMissingFromField)])"
    using blank by (simp add: checkFromNodeRange.simps)
  have filt3: "checkFromNodeRange 0 (length [?A, ?C, ?B]) [?A, ?C, ?B] [] = Inl IndexOutOfRange"
    using blank by (simp add: checkFromNodeRange.simps)
  have meth: "Message.Method blankFromB = REQCliCommand"
    by (simp add: blankFromB_def)
  have pn: "processNameGet (name ?sub) processKindSubscriber = ''ship1.REQCliCommand.EventACK.subscriber''"
    by (simp add: processNameGet_def name_def)
  have handle: "handleRange startupProcs ''ship1'' [?B] = [HandlerCall REQCliCommand blankFromB ''ship1'']"
    using meth pn by (simp add: Let_def startupProcs_def ackProc_def twoMethods_def CheckIfExists_def)
  have r2: "readStartupFile (\<lambda>b. Inr [blankFromA, blankFromB]) startupProcs ''ship1'' []
       = Inr [ErrSend zeroMessage ErrMissingFromField,
              HandlerCall REQCliCommand blankFromB ''ship1'']"
    unfolding readStartupFile_def conv2 using filt2 handle by simp
  have r3: "readStartupFile (\<lambda>b. Inr [blankFromA, cliMsg, blankFromB]) startupProcs ''ship1'' []
       = Inl IndexOutOfRange"
    unfolding readStartupFile_def conv3 using filt3 by simp
  from blank r2 r3 show ?thesis by simp
qed

section \<open>Signature check: proofs\<close>

text \<open>
  Claim C4 as stated fails: the key handed to the verifier is the node's own
  \<open>SignPublicKey\<close>, and the store \<open>publicKeys.Keys\<close> is never read. On \<open>ship1\<close>,
  with enforcement on, a CLI message from \<open>central\<close> carries a signature that verifies
  under the key stored for \<open>central\<close>; \<open>verifySignature\<close> returns false.
\<close>

theorem verifySignature_sender_key_counterexample:
  "EnableSignatureCheck (nodeAuth.configuration authShip1)
   \<and> Message.Method signedMsg = REQCliCommand
   \<and> Keys (publicKeys authShip1) (FromNode signedMsg) = Some ''K-central:''
   \<and> tagVerify ''K-central:'' (argsToString (MethodArgs signedMsg)) (ArgSignature signedMsg)
   \<and> \<not> verifySignature tagVerify authShip1 signedMsg"
  by (simp add: authShip1_def signedMsg_def tagVerify_def argsToString_def verifySignature_def)

text \<open>
  Claim C4, amended. \<open>verifySignature\<close> returns true whenever signature enforcement is
  off or the method is not \<open>REQCliCommand\<close>. With enforcement on and the method
  \<open>REQCliCommand\<close>, it returns the verdict of the ed25519 verifier on the signature
  \<open>ArgSignature\<close> over the \<open>MethodArgs\<close> joined with single spaces, under the node's own
  public signing key \<open>SignPublicKey\<close>; the keys stored in \<open>publicKeys\<close> have no
  influence on the result.
\<close>

theorem verifySignature_own_key:
  "(\<not> EnableSignatureCheck (nodeAuth.configuration n) \<or> Message.Method m \<noteq> REQCliCommand
      \<longrightarrow> verifySignature ed25519_Verify n m)
   \<and> (EnableSignatureCheck (nodeAuth.configuration n) \<and> Message.Method m = REQCliCommand
      \<longrightarrow> verifySignature ed25519_Verify n m
            = ed25519_Verify (SignPublicKey n) (argsToString (MethodArgs m)) (ArgSignature m))
   \<and> verifySignature ed25519_Verify (n\<lparr>publicKeys := ks\<rparr>) m = verifySignature ed25519_Verify n m
   \<and> argsToString [] = []
   \<and> argsToString (a # args) = a @ concat (map (\<lambda>x. '' '' @ x) args)"
proof -
  have join: "strings_Join (a # args) sep = a @ concat (map (\<lambda>x. sep @ x) args)" for a args sep
    by (induction args arbitrary: a) simp_all
  show ?thesis
    by (simp add: verifySignature_def argsToString_def join)
qed

theorem verifySignature_own_key_witness:
  "EnableSignatureCheck (nodeAuth.configuration authShip1)
   \<and> Message.Method signedMsg = REQCliCommand
   \<and> Message.Method helloMsg \<noteq> REQCliCommand
   \<and> verifySignature tagVerify authShip1 helloMsg
   \<and> verifySignature tagVerify authShip1 signedMsg
       = tagVerify ''K-ship1:'' ''bash -c tree ./'' ''K-central:bash -c tree ./''"
proof -
  have h1: "EnableSignatureCheck (nodeAuth.configuration authShip1)"
    by (simp add: authShip1_def)
  have h2: "Message.Method signedMsg = REQCliCommand"
    by (simp add: signedMsg_def)
  have h3: "Message.Method helloMsg \<noteq> REQCliCommand"
    by (simp add: helloMsg_def)
  have c1: "verifySignature tagVerify authShip1 helloMsg"
    using verifySignature_own_key [of authShip1 helloMsg tagVerify] h3 by blast
  have c2: "verifySignature tagVerify authShip1 signedMsg
            = tagVerify (SignPublicKey authShip1) (argsToString (MethodArgs signedMsg))
                (ArgSignature signedMsg)"
    using verifySignature_own_key [of authShip1 signedMsg tagVerify] h1 h2 by blast
  have args: "argsToString (MethodArgs signedMsg) = ''bash -c tree ./''"
    using verifySignature_own_key [of authShip1 signedMsg tagVerify _ "''bash''" "[''-c'', ''tree ./'']"]
    by (simp add: signedMsg_def)
  have "SignPublicKey authShip1 = ''K-ship1:''" "ArgSignature signedMsg = ''K-central:bash -c tree ./''"
    by (simp_all add: authShip1_def signedMsg_def)
  with h1 h2 h3 c1 c2 args show ?thesis by simp
qed

section \<open>Reply routing: proofs\<close>

lemma set_ReplyMethod_same [simp]: "set_ReplyMethod (ReplyMethod m) m = m"
  by (cases m) (simp add: set_ReplyMethod_def)

lemma sel_set_ReplyMethod [simp]:
  "Message.ToNode (set_ReplyMethod r m) = Message.ToNode m"
  "FromNode (set_ReplyMethod r m) = FromNode m"
  "ReplyMethod (set_ReplyMethod r m) = r"
  "ReplyMethodArgs (set_ReplyMethod r m) = ReplyMethodArgs m"
  "ReplyACKTimeout (set_ReplyMethod r m) = ReplyACKTimeout m"
  "ReplyRetries (set_ReplyMethod r m) = ReplyRetries m"
  "ReplyMethodTimeout (set_ReplyMethod r m) = ReplyMethodTimeout m"
  "Directory (set_ReplyMethod r m) = Directory m"
  "FileName (set_ReplyMethod r m) = FileName m"
  by (simp_all add: set_ReplyMethod_def)

lemma sel_set_Data [simp]:
  "Message.Data (set_Data d m) = d"
  "ReplyMethod (set_Data d m) = ReplyMethod m"
  by (simp_all add: set_Data_def)

text \<open>
  Claim C8 as stated fails: the copy kept in \<open>PreviousMessage\<close> is taken after the
  default reply method has been written into the message. For a request that names no
  reply method, the copy differs from the request with its data removed: its
  \<open>ReplyMethod\<close> is \<open>REQToFileAppend\<close>.
\<close>

theorem newReplyMessage_previous_counterexample:
  "ReplyMethod dataMsg \<noteq> REQNone
   \<and> length (fst (newReplyMessage dataMsg ''stdout'')) = 1
   \<and> length (hd (fst (newReplyMessage dataMsg ''stdout''))) = 1
   \<and> PreviousMessage (Message (hd (hd (fst (newReplyMessage dataMsg ''stdout'')))))
       \<noteq> Some (set_Data [] dataMsg)"
proof -
  have tab: "getHandler REQToFileAppend = Some EventACK"
    by (simp add: getHandler_def GetMethodsAvailable_def)
  have rm: "ReplyMethod dataMsg = []" "FromNode dataMsg = ''central''"
    by (simp_all add: dataMsg_def)
  have diff: "set_Data [] (set_ReplyMethod REQToFileAppend dataMsg) \<noteq> set_Data [] dataMsg"
  proof
    assume "set_Data [] (set_ReplyMethod REQToFileAppend dataMsg) = set_Data [] dataMsg"
    then have "ReplyMethod (set_Data [] (set_ReplyMethod REQToFileAppend dataMsg))
               = ReplyMethod (set_Data [] dataMsg)"
      by simp
    with rm show False by simp
  qed
  show ?thesis
    using rm diff tab
    by (simp add: newReplyMessage_def Let_def newSubjectAndMessage_def)
qed

text \<open>
  Claim C8, amended. If \<open>m.ReplyMethod\<close> is \<open>REQNone\<close>, \<open>newReplyMessage\<close> sends
  nothing. Otherwise, when \<open>m.FromNode\<close> is not empty and the reply method (\<open>m.ReplyMethod\<close>,
  or \<open>REQToFileAppend\<close> when that is empty) is in the method table, it sends exactly one
  batch with exactly one new message: \<open>ToNode\<close> is \<open>m.FromNode\<close>, \<open>FromNode\<close> is
  \<open>m.ToNode\<close>, \<open>Method\<close> is the reply method, \<open>MethodArgs\<close>, \<open>ACKTimeout\<close>, \<open>Retries\<close>
  and \<open>MethodTimeout\<close> come from the \<open>Reply*\<close> fields of \<open>m\<close>, \<open>Directory\<close> and
  \<open>FileName\<close> are those of \<open>m\<close>, \<open>Data\<close> is the handler output, \<open>IsReply\<close> is true, and
  \<open>PreviousMessage\<close> is a non-nil copy of \<open>m\<close> with \<open>Data\<close> set to nil and
  \<open>ReplyMethod\<close> set to the reply method, so a copy of \<open>m\<close> with only \<open>Data\<close> changed
  whenever \<open>m\<close> names its reply method.
\<close>

theorem newReplyMessage_reply:
  "(ReplyMethod m = REQNone \<longrightarrow> newReplyMessage m d = ([], []))
   \<and> (ReplyMethod m \<noteq> REQNone \<and> FromNode m \<noteq> []
        \<and> getHandler (replyMethodOrDefault m) \<noteq> None \<longrightarrow>
       (\<exists>sam. newReplyMessage m d = ([[sam]], [])
          \<and> Message.ToNode (Message sam) = FromNode m
          \<and> FromNode (Message sam) = Message.ToNode m
          \<and> Message.Method (Message sam) = replyMethodOrDefault m
          \<and> MethodArgs (Message sam) = ReplyMethodArgs m
          \<and> ACKTimeout (Message sam) = ReplyACKTimeout m
          \<and> Retries (Message sam) = ReplyRetries m
          \<and> MethodTimeout (Message sam) = ReplyMethodTimeout m
          \<and> Directory (Message sam) = Directory m
          \<and> FileName (Message sam) = FileName m
          \<and> Message.Data (Message sam) = d
          \<and> IsReply (Message sam)
          \<and> PreviousMessage (Message sam)
              = Some (set_Data [] (set_ReplyMethod (replyMethodOrDefault m) m))
          \<and> Subject.ToNode (subjectAndMessage.Subject sam) = FromNode m
          \<and> Subject.Method (subjectAndMessage.Subject sam) = replyMethodOrDefault m))
   \<and> (ReplyMethod m \<noteq> [] \<longrightarrow> set_ReplyMethod (replyMethodOrDefault m) m = m)
   \<and> (ReplyMethod m = [] \<longrightarrow> replyMethodOrDefault m = REQToFileAppend)"
proof (intro conjI impI)
  show "ReplyMethod m = REQNone \<Longrightarrow> newReplyMessage m d = ([], [])"
    by (simp add: newReplyMessage_def)
next
  assume h: "ReplyMethod m \<noteq> REQNone \<and> FromNode m \<noteq> []
             \<and> getHandler (replyMethodOrDefault m) \<noteq> None"
  then obtain kind where kind: "getHandler (replyMethodOrDefault m) = Some kind"
    by auto
  show "\<exists>sam. newReplyMessage m d = ([[sam]], [])
          \<and> Message.ToNode (Message sam) = FromNode m
          \<and> FromNode (Message sam) = Message.ToNode m
          \<and> Message.Method (Message sam) = replyMethodOrDefault m
          \<and> MethodArgs (Message sam) = ReplyMethodArgs m
          \<and> ACKTimeout (Message sam) = ReplyACKTimeout m
          \<and> Retries (Message sam) = ReplyRetries m
          \<and> MethodTimeout (Message sam) = ReplyMethodTimeout m
          \<and> Directory (Message sam) = Directory m
          \<and> FileName (Message sam) = FileName m
          \<and> Message.Data (Message sam) = d
          \<and> IsReply (Message sam)
          \<and> PreviousMessage (Message sam)
              = Some (set_Data [] (set_ReplyMethod (replyMethodOrDefault m) m))
          \<and> Subject.ToNode (subjectAndMessage.Subject sam) = FromNode m
          \<and> Subject.Method (subjectAndMessage.Subject sam) = replyMethodOrDefault m"
  proof (cases "ReplyMethod m = []")
    case True
    with kind have tab: "getHandler REQToFileAppend = Some kind"
      by (simp add: replyMethodOrDefault_def)
    from h True tab show ?thesis
      by (simp add: newReplyMessage_def Let_def replyMethodOrDefault_def
          newSubjectAndMessage_def)
  next
    case False
    with kind have tab: "getHandler (ReplyMethod m) = Some kind"
      by (simp add: replyMethodOrDefault_def)
    from h False tab show ?thesis
      by (simp add: newReplyMessage_def Let_def replyMethodOrDefault_def
          newSubjectAndMessage_def)
  qed
next
  show "ReplyMethod m \<noteq> [] \<Longrightarrow> set_ReplyMethod (replyMethodOrDefault m) m = m"
    by (simp add: replyMethodOrDefault_def)
next
  show "ReplyMethod m = [] \<Longrightarrow> replyMethodOrDefault m = REQToFileAppend"
    by (simp add: replyMethodOrDefault_def)
qed

theorem newReplyMessage_reply_witness:
  "ReplyMethod noReplyMsg = REQNone
   \<and> newReplyMessage noReplyMsg ''stdout'' = ([], [])
   \<and> ReplyMethod dataMsg \<noteq> REQNone \<and> FromNode dataMsg \<noteq> []
   \<and> getHandler (replyMethodOrDefault dataMsg) \<noteq> None
   \<and> (\<exists>sam. newReplyMessage dataMsg ''stdout'' = ([[sam]], [])
          \<and> Message.ToNode (Message sam) = ''central''
          \<and> FromNode (Message sam) = ''ship1''
          \<and> Message.Method (Message sam) = REQToFileAppend
          \<and> Message.Data (Message sam) = ''stdout''
          \<and> IsReply (Message sam)
          \<and> PreviousMessage (Message sam)
              = Some (set_Data [] (set_ReplyMethod REQToFileAppend dataMsg)))"
proof -
  have h0: "ReplyMethod noReplyMsg = REQNone"
    by (simp add: noReplyMsg_def)
  have rm: "ReplyMethod dataMsg = []"
    by (simp add: dataMsg_def)
  have def: "replyMethodOrDefault dataMsg = REQToFileAppend"
    using newReplyMessage_reply [of dataMsg] rm by blast
  have h1: "ReplyMethod dataMsg \<noteq> REQNone \<and> FromNode dataMsg \<noteq> []
            \<and> getHandler (replyMethodOrDefault dataMsg) \<noteq> None"
    using rm def by (simp add: dataMsg_def getHandler_def GetMethodsAvailable_def)
  have c0: "newReplyMessage noReplyMsg ''stdout'' = ([], [])"
    using newReplyMessage_reply [of noReplyMsg "''stdout''"] h0 by blast
  have fields: "FromNode dataMsg = ''central''" "Message.ToNode dataMsg = ''ship1''"
    by (simp_all add: dataMsg_def)
  have c1: "\<exists>sam. newReplyMessage dataMsg ''stdout'' = ([[sam]], [])
          \<and> Message.ToNode (Message sam) = ''central''
          \<and> FromNode (Message sam) = ''ship1''
          \<and> Message.Method (Message sam) = REQToFileAppend
          \<and> Message.Data (Message sam) = ''stdout''
          \<and> IsReply (Message sam)
          \<and> PreviousMessage (Message sam)
              = Some (set_Data [] (set_ReplyMethod REQToFileAppend dataMsg))"
    using newReplyMessage_reply [of dataMsg "''stdout''"] h1 def fields
    by auto
  from h0 h1 c0 c1 show ?thesis by blast
qed

section \<open>File naming: proofs\<close>

text \<open>
  Claim C10. \<open>selectFileNaming\<close> returns the pair of the three-row policy, where
  \<open><a>/<b>/<c>\<close> is the path \<open>filepath.Join\<close> makes of the three elements: the
  message's own \<open>FileName\<close>, \<open>Directory\<close> and \<open>ToNode\<close> when there is no previous
  message; the previous message's \<open>FileName\<close>, \<open>Directory\<close> and \<open>ToNode\<close> when that
  \<open>ToNode\<close> is not empty; the previous message's \<open>FileName\<close> and \<open>Directory\<close> with the
  message's \<open>FromNode\<close> when it is empty. The three rows cover every message.
\<close>

theorem selectFileNaming_policy:
  "(PreviousMessage m = None \<longrightarrow>
      selectFileNaming filepath_Join m p
        = (FileName m,
           filepath_Join [SubscribersDataFolder (process.configuration p), Directory m,
                          Message.ToNode m]))
   \<and> (\<forall>prev. PreviousMessage m = Some prev \<and> Message.ToNode prev \<noteq> [] \<longrightarrow>
      selectFileNaming filepath_Join m p
        = (FileName prev,
           filepath_Join [SubscribersDataFolder (process.configuration p), Directory prev,
                          Message.ToNode prev]))
   \<and> (\<forall>prev. PreviousMessage m = Some prev \<and> Message.ToNode prev = [] \<longrightarrow>
      selectFileNaming filepath_Join m p
        = (FileName prev,
           filepath_Join [SubscribersDataFolder (process.configuration p), Directory prev,
                          FromNode m]))"
  by (simp add: selectFileNaming_def)

theorem selectFileNaming_policy_witness:
  "PreviousMessage cliMsg = None
   \<and> selectFileNaming slashJoin cliMsg ackProc = (''out.log'', ''var/cmd_result/ship1'')
   \<and> PreviousMessage replyWithToNode = Some prevWithToNode
   \<and> Message.ToNode prevWithToNode \<noteq> []
   \<and> selectFileNaming slashJoin replyWithToNode ackProc = (''bar.log'', ''var/foo/ship1'')
   \<and> PreviousMessage replyNoToNode = Some prevNoToNode
   \<and> Message.ToNode prevNoToNode = []
   \<and> selectFileNaming slashJoin replyNoToNode ackProc = (''bar.log'', ''var/foo/ship2'')"
proof -
  have h1: "PreviousMessage cliMsg = None"
    by (simp add: cliMsg_def)
  have h2: "PreviousMessage replyWithToNode = Some prevWithToNode \<and> Message.ToNode prevWithToNode \<noteq> []"
    by (simp add: replyWithToNode_def prevWithToNode_def)
  have h3: "PreviousMessage replyNoToNode = Some prevNoToNode \<and> Message.ToNode prevNoToNode = []"
    by (simp add: replyNoToNode_def prevNoToNode_def)
  have c1: "selectFileNaming slashJoin cliMsg ackProc
            = (FileName cliMsg,
               slashJoin [SubscribersDataFolder (process.configuration ackProc), Directory cliMsg,
                          Message.ToNode cliMsg])"
    using selectFileNaming_policy [of cliMsg slashJoin ackProc] h1 by blast
  have c2: "selectFileNaming slashJoin replyWithToNode ackProc
            = (FileName prevWithToNode,
               slashJoin [SubscribersDataFolder (process.configuration ackProc),
                          Directory prevWithToNode, Message.ToNode prevWithToNode])"
    using selectFileNaming_policy [of replyWithToNode slashJoin ackProc] h2 by blast
  have c3: "selectFileNaming slashJoin replyNoToNode ackProc
            = (FileName prevNoToNode,
               slashJoin [SubscribersDataFolder (process.configuration ackProc),
                          Directory prevNoToNode, FromNode replyNoToNode])"
    using selectFileNaming_policy [of replyNoToNode slashJoin ackProc] h3 by blast
  have v1: "(FileName cliMsg,
               slashJoin [SubscribersDataFolder (process.configuration ackProc), Directory cliMsg,
                          Message.ToNode cliMsg]) = (''out.log'', ''var/cmd_result/ship1'')"
    by (simp add: cliMsg_def ackProc_def slashJoin_def)
  have v2: "(FileName prevWithToNode,
               slashJoin [SubscribersDataFolder (process.configuration ackProc),
                          Directory prevWithToNode, Message.ToNode prevWithToNode])
            = (''bar.log'', ''var/foo/ship1'')"
    by (simp add: prevWithToNode_def ackProc_def slashJoin_def)
  have v3: "(FileName prevNoToNode,
               slashJoin [SubscribersDataFolder (process.configuration ackProc),
                          Directory prevNoToNode, FromNode replyNoToNode])
            = (''bar.log'', ''var/foo/ship2'')"
    by (simp add: prevNoToNode_def replyNoToNode_def ackProc_def slashJoin_def)
  from h1 h2 h3 c1 c2 c3 v1 v2 v3 show ?thesis by simp
qed

end
